theory Spec2Isabelle
  imports Complex_Main "HOL-Library.Word"
begin

section \<open>Data of the Arcium client (src/lib/arcium-client.ts)\<close>

text \<open>
  A \<open>Uint8Array\<close> or \<open>Buffer\<close> is a list of bytes, a \<open>bigint\<close> is an \<open>int\<close>.
\<close>

type_synonym byte = "8 word"
type_synonym bytes = "byte list"

text \<open>
  A \<open>number\<close> is a double: a finite value, an infinity or \<open>NaN\<close>. \<open>Math.floor\<close> and
  \<open>BigInt\<close> are exact on doubles and are defined here; \<open>BigInt\<close> raises a \<open>RangeError\<close> on
  a number that is not an integer. The product of two doubles is rounded; it is defined
  after them (\<open>double_mul\<close>).
\<close>

datatype number = Finite real | PosInfinity | NegInfinity | NaN

fun Math_floor :: "number \<Rightarrow> number" where
  "Math_floor (Finite x) = Finite (of_int \<lfloor>x\<rfloor>)"
| "Math_floor PosInfinity = PosInfinity"
| "Math_floor NegInfinity = NegInfinity"
| "Math_floor NaN = NaN"

datatype side = Long | Short

datatype error =
    CouldNotInitialize
  | KeyExchangeThrows
  | CipherThrows
  | RangeError
  | FetchKeyExhausted nat
  | NotInitialized
  | ComputationThrows

fun BigInt :: "number \<Rightarrow> error + int" where
  "BigInt (Finite x) = (if x = of_int \<lfloor>x\<rfloor> then Inr \<lfloor>x\<rfloor> else Inl RangeError)"
| "BigInt PosInfinity = Inl RangeError"
| "BigInt NegInfinity = Inl RangeError"
| "BigInt NaN = Inl RangeError"

subsection \<open>The product of two doubles\<close>

text \<open>
  The finite doubles of a magnitude from \<open>2^E\<close> up to \<open>2^(E+1)\<close> are the multiples of
  \<open>2^(E-52)\<close>, and those of a magnitude below \<open>2^-1022\<close> are the multiples of \<open>2^-1074\<close>:
  this spacing is the quantum of the magnitude. \<open>binade n a\<close> is the exponent \<open>E\<close> of a
  positive \<open>a\<close>, found by halving or doubling \<open>a\<close> at most \<open>n\<close> times; 1024 times are enough
  for every magnitude from \<open>2^-1022\<close> up to \<open>2^1024\<close>.
\<close>

fun binade :: "nat \<Rightarrow> real \<Rightarrow> int" where
  "binade 0 a = 0"
| "binade (Suc n) a =
     (if 2 \<le> a then binade n (a / 2) + 1
      else if a < 1 then binade n (2 * a) - 1
      else 0)"

definition quantum :: "real \<Rightarrow> real" where
  "quantum a = (if a < 2 powi (- 1022) then 2 powi (- 1074) else 2 powi (binade 1024 a - 52))"

text \<open>
  Rounding to the nearest integer, to the even one of two integers that are equally near;
  rounding to the nearest multiple of the quantum.
\<close>

definition round_half_even :: "real \<Rightarrow> int" where
  "round_half_even r =
     (if r - of_int \<lfloor>r\<rfloor> < 1 / 2 then \<lfloor>r\<rfloor>
      else if 1 / 2 < r - of_int \<lfloor>r\<rfloor> then \<lfloor>r\<rfloor> + 1
      else if even \<lfloor>r\<rfloor> then \<lfloor>r\<rfloor> else \<lfloor>r\<rfloor> + 1)"

definition round_double :: "real \<Rightarrow> real" where
  "round_double a =
     (if a = 0 then 0 else of_int (round_half_even (a / quantum \<bar>a\<bar>)) * quantum \<bar>a\<bar>)"

text \<open>
  The largest double is \<open>2^1024 - 2^971\<close>. A magnitude of \<open>2^1024 - 2^970\<close> or more is
  rounded to \<open>2^1024\<close>, which is no double: the result is an infinity.
\<close>

definition overflow_threshold :: real where
  "overflow_threshold = 2 ^ 1024 - 2 ^ 970"

text \<open>
  The product of two finite doubles is their exact product, rounded. An infinity times
  zero is \<open>NaN\<close>. Zeros carry no sign here: \<open>BigInt\<close> gives 0 for either zero.
\<close>

fun number_sign :: "number \<Rightarrow> int" where
  "number_sign (Finite x) = (if 0 < x then 1 else if x < 0 then - 1 else 0)"
| "number_sign PosInfinity = 1"
| "number_sign NegInfinity = - 1"
| "number_sign NaN = 0"

fun double_mul :: "number \<Rightarrow> number \<Rightarrow> number" where
  "double_mul (Finite x) (Finite y) =
     (if overflow_threshold \<le> \<bar>x * y\<bar>
      then (if 0 < x * y then PosInfinity else NegInfinity)
      else Finite (round_double (x * y)))"
| "double_mul NaN y = NaN"
| "double_mul x NaN = NaN"
| "double_mul x y =
     (if number_sign x * number_sign y = 1 then PosInfinity
      else if number_sign x * number_sign y = - 1 then NegInfinity
      else NaN)"

subsection \<open>The ledger and the imported packages\<close>

text \<open>
  What \<open>connection.getAccountInfo\<close> answers for an address: the request is rejected, the
  account does not exist (\<open>null\<close>), or the account with its data.
\<close>

datatype rpc_reply = RpcError | NoAccount | Account bytes

type_synonym ledger = "bytes \<Rightarrow> rpc_reply"

text \<open>
  The functions of the imported packages (\<open>@solana/web3.js\<close>, \<open>@arcium-hq/client\<close>) are
  parameters of the model, and so is the multiplication of doubles (\<open>float_mul\<close>; the
  multiplication of the language is \<open>double_mul\<close>). \<open>None\<close> stands for a
  call that throws. \<open>rescue_encrypt s\<close> is \<open>new RescueCipher(s).encrypt\<close>, \<open>rescue_decrypt s\<close>
  is \<open>new RescueCipher(s).decrypt\<close>.
\<close>

record externals =
  float_mul :: "number \<Rightarrow> number \<Rightarrow> number"
  findProgramAddressSync :: "string list \<Rightarrow> bytes \<Rightarrow> bytes option"
  x25519_getPublicKey :: "bytes \<Rightarrow> bytes"
  x25519_getSharedSecret :: "bytes \<Rightarrow> bytes \<Rightarrow> bytes option"
  rescue_encrypt :: "bytes \<Rightarrow> int list \<Rightarrow> bytes \<Rightarrow> bytes list option"
  rescue_decrypt :: "bytes \<Rightarrow> bytes list \<Rightarrow> bytes \<Rightarrow> int list option"

text \<open>
  The effects of the client on its surroundings: the bytes taken from the random source
  of \<open>crypto\<close> (a tape, read from left to right), the addresses it asked the ledger for,
  and the invocations of \<open>cipher.encrypt\<close> as (secret, plaintext, nonce).
\<close>

record world =
  random_tape :: "nat \<Rightarrow> byte"
  random_used :: nat
  fetch_log :: "bytes list"
  encrypt_log :: "(bytes \<times> int list \<times> bytes) list"

record ArciumClient =
  programId :: bytes
  mxePublicKey :: "bytes option"
  privateKey :: bytes
  publicKey :: bytes

definition randomBytes :: "nat \<Rightarrow> world \<Rightarrow> bytes \<times> world" where
  "randomBytes n w =
     (map (random_tape w) [random_used w ..< random_used w + n],
      w\<lparr>random_used := random_used w + n\<rparr>)"

text \<open>The constructor: an ephemeral key pair, no cluster key yet.\<close>

definition new_ArciumClient :: "externals \<Rightarrow> bytes \<Rightarrow> world \<Rightarrow> ArciumClient \<times> world" where
  "new_ArciumClient ext pid w =
     (let (sk, w') = randomBytes 32 w
      in (\<lparr>programId = pid, mxePublicKey = None, privateKey = sk,
           publicKey = x25519_getPublicKey ext sk\<rparr>, w'))"

subsection \<open>getMXEPublicKey\<close>

text \<open>
  The cached key is returned when there is one. Otherwise the address of the configuration
  account is derived and the account is fetched; every failure inside the \<open>try\<close> block is
  rethrown as the one error \<open>Could not initialize Arcium encryption\<close>. The key is bytes
  8 to 39 of the account data (\<open>data.slice(8, 40)\<close>).
\<close>

definition getMXEPublicKey ::
  "externals \<Rightarrow> ledger \<Rightarrow> ArciumClient \<Rightarrow> world \<Rightarrow> (error + bytes) \<times> ArciumClient \<times> world" where
  "getMXEPublicKey ext led c w =
     (case mxePublicKey c of
        Some k \<Rightarrow> (Inr k, c, w)
      | None \<Rightarrow>
          (case findProgramAddressSync ext [''mxe_config''] (programId c) of
             None \<Rightarrow> (Inl CouldNotInitialize, c, w)
           | Some mxeConfigPda \<Rightarrow>
               (let w' = w\<lparr>fetch_log := fetch_log w @ [mxeConfigPda]\<rparr>
                in case led mxeConfigPda of
                     RpcError \<Rightarrow> (Inl CouldNotInitialize, c, w')
                   | NoAccount \<Rightarrow> (Inl CouldNotInitialize, c, w')
                   | Account d \<Rightarrow>
                       (let k = take 32 (drop 8 d)
                        in (Inr k, c\<lparr>mxePublicKey := Some k\<rparr>, w')))))"

subsection \<open>getMXEPublicKeyWithRetry (test suite)\<close>

text \<open>
  The helper of the test suite calls the package's \<open>getMXEPublicKey\<close> up to \<open>maxRetries\<close>
  times. \<open>lib n\<close> is what the n-th call does: it returns a key, returns nothing, or
  throws. Between two attempts the helper sleeps \<open>retryDelayMs\<close>. The result comes with
  the number of attempts made and the milliseconds slept.
\<close>

datatype lib_reply = KeyReturned bytes | NothingReturned | Thrown

text \<open>
  The body of the \<open>try\<close> block returns from the helper when the call gave a key; a call
  that gave nothing and a call that threw both fall through to the delay.
\<close>

fun returned_key :: "lib_reply \<Rightarrow> bytes option" where
  "returned_key (KeyReturned key) = Some key"
| "returned_key NothingReturned = None"
| "returned_key Thrown = None"

function retry_loop ::
  "(nat \<Rightarrow> lib_reply) \<Rightarrow> nat \<Rightarrow> nat \<Rightarrow> nat \<Rightarrow> nat \<Rightarrow> (error + bytes) \<times> nat \<times> nat" where
  "retry_loop lib maxRetries retryDelayMs attempt slept =
     (if attempt \<le> maxRetries then
        (case returned_key (lib attempt) of
           Some key \<Rightarrow> (Inr key, attempt, slept)
         | None \<Rightarrow>
             retry_loop lib maxRetries retryDelayMs (attempt + 1)
               (if attempt < maxRetries then slept + retryDelayMs else slept))
      else (Inl (FetchKeyExhausted maxRetries), attempt - 1, slept))"
  by pat_completeness auto
termination
  by (relation "measure (\<lambda>(lib, maxRetries, retryDelayMs, attempt, slept). maxRetries + 1 - attempt)")
     auto

definition getMXEPublicKeyWithRetry ::
  "(nat \<Rightarrow> lib_reply) \<Rightarrow> nat \<Rightarrow> nat \<Rightarrow> (error + bytes) \<times> nat \<times> nat" where
  "getMXEPublicKeyWithRetry lib maxRetries retryDelayMs =
     retry_loop lib maxRetries retryDelayMs 1 0"

text \<open>The call of the \<open>before\<close> hook: 20 attempts, 2000 ms apart.\<close>

definition before_fetch_key :: "(nat \<Rightarrow> lib_reply) \<Rightarrow> (error + bytes) \<times> nat \<times> nat" where
  "before_fetch_key lib = getMXEPublicKeyWithRetry lib 20 2000"

subsection \<open>encryptTradeParams\<close>

record TradeParams =
  side :: side
  sizeUsd :: number
  collateral :: number
  entryPrice :: number

record EncryptedTradeParams =
  side_enc :: bytes
  sizeUsd_enc :: bytes
  collateral_enc :: bytes
  entryPrice_enc :: bytes
  publicKey_enc :: bytes
  nonce_enc :: bytes

text \<open>\<open>new Uint8Array(xs[0])\<close>: of an empty result, \<open>xs[0]\<close> is undefined and the array is empty.\<close>

definition first_ciphertext :: "bytes list \<Rightarrow> bytes" where
  "first_ciphertext cs = (case cs of [] \<Rightarrow> [] | c # _ \<Rightarrow> c)"

text \<open>One \<open>cipher.encrypt([v], nonce)[0]\<close>; the invocation is logged whether it throws or not.\<close>

definition encrypt_one ::
  "externals \<Rightarrow> bytes \<Rightarrow> int \<Rightarrow> bytes \<Rightarrow> world \<Rightarrow> (error + bytes) \<times> world" where
  "encrypt_one ext secret v nonce w =
     (let w' = w\<lparr>encrypt_log := encrypt_log w @ [(secret, [v], nonce)]\<rparr>
      in case rescue_encrypt ext secret [v] nonce of
           None \<Rightarrow> (Inl CipherThrows, w')
         | Some cs \<Rightarrow> (Inr (first_ciphertext cs), w'))"

text \<open>
  The nonce is drawn once, before the parameters are converted; a conversion that raises
  ends the call before anything is encrypted.
\<close>

definition encryptTradeParams ::
  "externals \<Rightarrow> ledger \<Rightarrow> ArciumClient \<Rightarrow> world \<Rightarrow> TradeParams
     \<Rightarrow> (error + EncryptedTradeParams) \<times> ArciumClient \<times> world" where
  "encryptTradeParams ext led c w params =
     (case getMXEPublicKey ext led c w of
        (Inl e, c1, w1) \<Rightarrow> (Inl e, c1, w1)
      | (Inr mxeKey, c1, w1) \<Rightarrow>
          (case x25519_getSharedSecret ext (privateKey c1) mxeKey of
             None \<Rightarrow> (Inl KeyExchangeThrows, c1, w1)
           | Some sharedSecret \<Rightarrow>
               (let (nonce, w2) = randomBytes 16 w1;
                    sideBigInt = (if side params = Long then 1 else 0)
                in case BigInt (Math_floor (float_mul ext (sizeUsd params) (Finite 1000000))) of
                     Inl e \<Rightarrow> (Inl e, c1, w2)
                   | Inr sizeUsdBigInt \<Rightarrow>
                 (case BigInt (Math_floor (float_mul ext (collateral params) (Finite 1000000))) of
                     Inl e \<Rightarrow> (Inl e, c1, w2)
                   | Inr collateralBigInt \<Rightarrow>
                 (case BigInt (Math_floor (float_mul ext (entryPrice params) (Finite 1000000))) of
                     Inl e \<Rightarrow> (Inl e, c1, w2)
                   | Inr entryPriceBigInt \<Rightarrow>
                 (case encrypt_one ext sharedSecret sideBigInt nonce w2 of
                     (Inl e, w3) \<Rightarrow> (Inl e, c1, w3)
                   | (Inr encryptedSide, w3) \<Rightarrow>
                 (case encrypt_one ext sharedSecret sizeUsdBigInt nonce w3 of
                     (Inl e, w4) \<Rightarrow> (Inl e, c1, w4)
                   | (Inr encryptedSize, w4) \<Rightarrow>
                 (case encrypt_one ext sharedSecret collateralBigInt nonce w4 of
                     (Inl e, w5) \<Rightarrow> (Inl e, c1, w5)
                   | (Inr encryptedCollateral, w5) \<Rightarrow>
                 (case encrypt_one ext sharedSecret entryPriceBigInt nonce w5 of
                     (Inl e, w6) \<Rightarrow> (Inl e, c1, w6)
                   | (Inr encryptedEntryPrice, w6) \<Rightarrow>
                       (Inr \<lparr>side_enc = encryptedSide, sizeUsd_enc = encryptedSize,
                             collateral_enc = encryptedCollateral,
                             entryPrice_enc = encryptedEntryPrice,
                             publicKey_enc = publicKey c1, nonce_enc = nonce\<rparr>,
                        c1, w6))))))))))"

subsection \<open>decryptPosition\<close>

record EncryptedData =
  side_data :: bytes
  sizeUsd_data :: bytes
  collateral_data :: bytes
  entryPrice_data :: bytes
  leverage_data :: bytes

text \<open>
  The fields of the result are bound by \<open>const [x] = cipher.decrypt(...)\<close>; \<open>None\<close> is the
  \<open>undefined\<close> that the pattern binds when the decrypted array is empty.
\<close>

record DecryptedPosition =
  side_dec :: "int option"
  sizeUsd_dec :: "int option"
  collateral_dec :: "int option"
  entryPrice_dec :: "int option"
  leverage_dec :: "int option"

definition first_plaintext :: "int list \<Rightarrow> int option" where
  "first_plaintext vs = (case vs of [] \<Rightarrow> None | v # _ \<Rightarrow> Some v)"

definition decrypt_one :: "externals \<Rightarrow> bytes \<Rightarrow> bytes \<Rightarrow> bytes \<Rightarrow> error + int option" where
  "decrypt_one ext secret ct nonce =
     (case rescue_decrypt ext secret [ct] nonce of
        None \<Rightarrow> Inl CipherThrows
      | Some vs \<Rightarrow> Inr (first_plaintext vs))"

definition decryptPosition ::
  "externals \<Rightarrow> ledger \<Rightarrow> ArciumClient \<Rightarrow> world \<Rightarrow> EncryptedData \<Rightarrow> bytes
     \<Rightarrow> (error + DecryptedPosition) \<times> ArciumClient \<times> world" where
  "decryptPosition ext led c w encryptedData nonce =
     (case getMXEPublicKey ext led c w of
        (Inl e, c1, w1) \<Rightarrow> (Inl e, c1, w1)
      | (Inr mxeKey, c1, w1) \<Rightarrow>
          (case x25519_getSharedSecret ext (privateKey c1) mxeKey of
             None \<Rightarrow> (Inl KeyExchangeThrows, c1, w1)
           | Some sharedSecret \<Rightarrow>
          (case decrypt_one ext sharedSecret (side_data encryptedData) nonce of
             Inl e \<Rightarrow> (Inl e, c1, w1)
           | Inr side' \<Rightarrow>
          (case decrypt_one ext sharedSecret (sizeUsd_data encryptedData) nonce of
             Inl e \<Rightarrow> (Inl e, c1, w1)
           | Inr sizeUsd' \<Rightarrow>
          (case decrypt_one ext sharedSecret (collateral_data encryptedData) nonce of
             Inl e \<Rightarrow> (Inl e, c1, w1)
           | Inr collateral' \<Rightarrow>
          (case decrypt_one ext sharedSecret (entryPrice_data encryptedData) nonce of
             Inl e \<Rightarrow> (Inl e, c1, w1)
           | Inr entryPrice' \<Rightarrow>
          (case decrypt_one ext sharedSecret (leverage_data encryptedData) nonce of
             Inl e \<Rightarrow> (Inl e, c1, w1)
           | Inr leverage' \<Rightarrow>
               (Inr \<lparr>side_dec = side', sizeUsd_dec = sizeUsd', collateral_dec = collateral',
                     entryPrice_dec = entryPrice', leverage_dec = leverage'\<rparr>,
                c1, w1))))))))"

subsection \<open>generateComputationOffset\<close>

text \<open>
  \<open>new BN(randomBytes(8), 'hex')\<close>: given an array of bytes, the constructor of \<open>bn.js\<close>
  reads it as an unsigned number, most significant byte first (the base is only used for
  strings). The test suite draws the offset of each of its submissions by the same
  expression.
\<close>

definition BN_of_bytes :: "bytes \<Rightarrow> nat" where
  "BN_of_bytes bs = foldl (\<lambda>acc b. acc * 256 + unat b) 0 bs"

definition generateComputationOffset :: "world \<Rightarrow> nat \<times> world" where
  "generateComputationOffset w = (let (bs, w') = randomBytes 8 w in (BN_of_bytes bs, w'))"

subsection \<open>awaitComputation and the submissions (lib/shoot-data-access)\<close>

text \<open>
  \<open>awaitComputation\<close> hands the offset and the program id of the client to
  \<open>awaitComputationFinalization\<close> of the package, here the parameter \<open>finalization\<close>: it
  returns a signature or throws (\<open>None\<close>).
\<close>

definition awaitComputation ::
  "(bytes \<Rightarrow> nat \<Rightarrow> string option) \<Rightarrow> ArciumClient \<Rightarrow> nat \<Rightarrow> error + string" where
  "awaitComputation finalization c computationOffset =
     (case finalization (programId c) computationOffset of
        None \<Rightarrow> Inl ComputationThrows
      | Some signature \<Rightarrow> Inr signature)"

text \<open>
  The mutation of \<open>useOpenPosition\<close> submits the opening of a position, the mutation of
  \<open>useClosePosition\<close> its closing. Each throws when the program, the wallet or the client
  is missing (\<open>ready\<close> stands for program and wallet); otherwise it generates the
  computation offset of the submission first. \<open>now\<close> is \<open>Date.now()\<close> in decimal digits.
  The opening returns its offset as \<open>computationOffset.toString()\<close>, which is kept here as
  the number that the string writes; the closing returns the two signatures only.
\<close>

record OpenPositionResult =
  queueSignature :: string
  finalizeSignature :: string
  computationOffset :: nat

record ClosePositionResult =
  close_queueSignature :: string
  close_finalizeSignature :: string

definition openPosition_mutation ::
  "externals \<Rightarrow> ledger \<Rightarrow> (bytes \<Rightarrow> nat \<Rightarrow> string option) \<Rightarrow> string \<Rightarrow> bool
     \<Rightarrow> ArciumClient option \<Rightarrow> world \<Rightarrow> TradeParams
     \<Rightarrow> (error + OpenPositionResult) \<times> ArciumClient option \<times> world" where
  "openPosition_mutation ext led finalization now ready arciumClient w params =
     (case arciumClient of
        None \<Rightarrow> (Inl NotInitialized, None, w)
      | Some c \<Rightarrow>
          if \<not> ready then (Inl NotInitialized, Some c, w)
          else
            (let (offset, w1) = generateComputationOffset w
             in case encryptTradeParams ext led c w1 params of
                  (Inl e, c1, w2) \<Rightarrow> (Inl e, Some c1, w2)
                | (Inr encrypted, c1, w2) \<Rightarrow>
                    (case awaitComputation finalization c1 offset of
                       Inl e \<Rightarrow> (Inl e, Some c1, w2)
                     | Inr signature \<Rightarrow>
                         (Inr \<lparr>queueSignature = ''pending-deployment-'' @ now,
                               finalizeSignature = signature,
                               computationOffset = offset\<rparr>,
                          Some c1, w2))))"

definition closePosition_mutation ::
  "(bytes \<Rightarrow> nat \<Rightarrow> string option) \<Rightarrow> string \<Rightarrow> bool \<Rightarrow> ArciumClient option \<Rightarrow> world
     \<Rightarrow> (error + ClosePositionResult) \<times> ArciumClient option \<times> world" where
  "closePosition_mutation finalization now ready arciumClient w =
     (case arciumClient of
        None \<Rightarrow> (Inl NotInitialized, None, w)
      | Some c \<Rightarrow>
          if \<not> ready then (Inl NotInitialized, Some c, w)
          else
            (let (offset, w1) = generateComputationOffset w
             in case awaitComputation finalization c offset of
                  Inl e \<Rightarrow> (Inl e, Some c, w1)
                | Inr signature \<Rightarrow>
                    (Inr \<lparr>close_queueSignature = ''pending-deployment-'' @ now,
                          close_finalizeSignature = signature\<rparr>,
                     Some c, w1)))"

section \<open>The set-up of the test suite\<close>

text \<open>
  The \<open>before\<close> hook loads the Arcium environment. \<open>getArciumEnv\<close> either returns it or
  throws (\<open>None\<close>); the hook catches the exception, logs a line and goes on with fixed
  values. Public keys are written in base 58.
\<close>

record ArciumEnv =
  arciumClusterPubkey :: string
  mxeProgramId :: string

definition before_arcium_env :: "ArciumEnv option \<Rightarrow> string \<Rightarrow> ArciumEnv \<times> string list" where
  "before_arcium_env getArciumEnv program_programId =
     (case getArciumEnv of
        Some env \<Rightarrow> (env, [])
      | None \<Rightarrow>
          (\<lparr>arciumClusterPubkey = ''2E4qQsaFWEWFbyKRDEaK2bAWQLFnk9MDRv6PCpViArmN'',
            mxeProgramId = program_programId\<rparr>,
           [''Failed to load Arcium env via getArciumEnv, using fallback values'']))"

section \<open>Properties of the imported cipher and of the encryption log\<close>

text \<open>
  The contract of the cipher that the client relies on: a value of the field, encrypted
  alone under a secret and a 16-byte nonce, gives one ciphertext, and decrypting that
  ciphertext under the same secret and nonce gives the value back. \<open>p\<close> is the order of
  the field.
\<close>

definition cipher_roundtrip :: "externals \<Rightarrow> int \<Rightarrow> bool" where
  "cipher_roundtrip ext p \<longleftrightarrow>
     (\<forall>secret nonce v. length nonce = 16 \<and> 0 \<le> v \<and> v < p \<longrightarrow>
        (\<exists>ct. rescue_encrypt ext secret [v] nonce = Some [ct]
              \<and> rescue_decrypt ext secret [ct] nonce = Some [v]))"

text \<open>No two invocations of the log have the secret and the nonce in common and differ in the plaintext.\<close>

definition nonce_never_reused :: "(bytes \<times> int list \<times> bytes) list \<Rightarrow> bool" where
  "nonce_never_reused entries \<longleftrightarrow>
     (\<forall>(s, pt, n) \<in> set entries. \<forall>(s', pt', n') \<in> set entries. s = s' \<and> n = n' \<longrightarrow> pt = pt')"

section \<open>An instance of the imported functions, for concrete runs\<close>

text \<open>
  A stream cipher over the field of order \<open>2^255 - 19\<close>: the ciphertext of \<open>v\<close> is the
  32-byte little-endian form of \<open>v\<close> plus a key stream value that depends on the secret
  and the nonce. It throws unless the nonce has 16 bytes.
\<close>

fun le_bytes :: "nat \<Rightarrow> nat \<Rightarrow> bytes" where
  "le_bytes 0 k = []"
| "le_bytes (Suc n) k = word_of_nat k # le_bytes n (k div 256)"

fun le_value :: "bytes \<Rightarrow> nat" where
  "le_value [] = 0"
| "le_value (b # bs) = unat b + 256 * le_value bs"

definition demo_order :: int where
  "demo_order = 2 ^ 255 - 19"

definition demo_keystream :: "bytes \<Rightarrow> bytes \<Rightarrow> int" where
  "demo_keystream secret nonce = int (BN_of_bytes (secret @ nonce)) mod demo_order"

definition demo_encrypt :: "bytes \<Rightarrow> int list \<Rightarrow> bytes \<Rightarrow> bytes list option" where
  "demo_encrypt secret vs nonce =
     (if length nonce = 16
      then Some (map (\<lambda>v. le_bytes 32 (nat ((v + demo_keystream secret nonce) mod demo_order))) vs)
      else None)"

definition demo_decrypt :: "bytes \<Rightarrow> bytes list \<Rightarrow> bytes \<Rightarrow> int list option" where
  "demo_decrypt secret cs nonce =
     (if length nonce = 16
      then Some (map (\<lambda>c. (int (le_value c) - demo_keystream secret nonce) mod demo_order) cs)
      else None)"

text \<open>The multiplication is the product of doubles, the cipher is the one above.\<close>

definition demo_externals :: externals where
  "demo_externals =
     \<lparr>float_mul = double_mul,
      findProgramAddressSync = (\<lambda>seeds pid. Some (rev pid)),
      x25519_getPublicKey = (\<lambda>sk. map (\<lambda>b. b + 9) sk),
      x25519_getSharedSecret =
        (\<lambda>sk pk. if length sk = 32 \<and> length pk = 32 then Some (map2 (+) sk pk) else None),
      rescue_encrypt = demo_encrypt,
      rescue_decrypt = demo_decrypt\<rparr>"

definition demo_world :: world where
  "demo_world = \<lparr>random_tape = (\<lambda>i. word_of_nat (3 * i + 1)), random_used = 0,
                 fetch_log = [], encrypt_log = []\<rparr>"

definition demo_client :: ArciumClient where
  "demo_client = fst (new_ArciumClient demo_externals [1, 2, 3, 4] demo_world)"

definition demo_world1 :: world where
  "demo_world1 = snd (new_ArciumClient demo_externals [1, 2, 3, 4] demo_world)"

text \<open>A ledger that holds the configuration account (48 bytes), one that does not, one that is down.\<close>

definition demo_ledger :: ledger where
  "demo_ledger addr = (if addr = [4, 3, 2, 1] then Account (map word_of_nat [0 ..< 48]) else NoAccount)"

definition absent_ledger :: ledger where
  "absent_ledger addr = NoAccount"

definition down_ledger :: ledger where
  "down_ledger addr = RpcError"

text \<open>The trade of the demonstration script: long, 1000 dollars, 100 dollars of collateral, entry at 142.50.\<close>

definition demo_params :: TradeParams where
  "demo_params = \<lparr>side = Long, sizeUsd = Finite 1000, collateral = Finite 100,
                   entryPrice = Finite 142.5\<rparr>"

definition demo_short_params :: TradeParams where
  "demo_short_params = \<lparr>side = Short, sizeUsd = Finite 1000, collateral = Finite 100,
                         entryPrice = Finite 142.5\<rparr>"

text \<open>
  A trade with amounts whose products with 1000000 are no integers: the size is the double
  nearest to 0.3, the collateral is \<open>2^-21\<close>, the entry price is \<open>2 - 2^-20\<close>. And a trade
  whose collateral is \<open>2^1010\<close>.
\<close>

definition demo_fraction_params :: TradeParams where
  "demo_fraction_params =
     \<lparr>side = Short, sizeUsd = Finite (5404319552844595 / 18014398509481984),
      collateral = Finite (1 / 2097152), entryPrice = Finite (2 - 1 / 1048576)\<rparr>"

definition demo_huge_params :: TradeParams where
  "demo_huge_params = \<lparr>side = Long, sizeUsd = Finite 1000, collateral = Finite (2 ^ 1010),
                        entryPrice = Finite 142.5\<rparr>"

text \<open>
  A random source that returns the byte 0 for ever, and a network that finalizes every
  computation of the program.
\<close>

definition stuck_world :: world where
  "stuck_world = \<lparr>random_tape = (\<lambda>i. 0), random_used = 0, fetch_log = [], encrypt_log = []\<rparr>"

definition demo_finalization :: "bytes \<Rightarrow> nat \<Rightarrow> string option" where
  "demo_finalization pid offset = (if pid = [1, 2, 3, 4] then Some ''finalized'' else None)"

text \<open>The key of the configuration account, the client that has cached it, their shared secret.\<close>

definition demo_key :: bytes where
  "demo_key = take 32 (drop 8 (map word_of_nat [0 ..< 48]))"

definition demo_client1 :: ArciumClient where
  "demo_client1 = demo_client\<lparr>mxePublicKey := Some demo_key\<rparr>"

definition demo_secret :: bytes where
  "demo_secret = map2 (+) (privateKey demo_client) demo_key"

definition demo_run :: "(error + EncryptedTradeParams) \<times> ArciumClient \<times> world" where
  "demo_run = encryptTradeParams demo_externals demo_ledger demo_client demo_world1 demo_params"

definition demo_short_run :: "(error + EncryptedTradeParams) \<times> ArciumClient \<times> world" where
  "demo_short_run =
     encryptTradeParams demo_externals demo_ledger demo_client demo_world1 demo_short_params"

text \<open>
  The world after such a run (\<open>sd\<close> is the plaintext of the side), and the data handed to
  \<open>decryptPosition\<close> when the four ciphertexts of a result are sent back with a ciphertext
  for the leverage.
\<close>

abbreviation demo_world2 :: "int \<Rightarrow> bytes \<Rightarrow> world" where
  "demo_world2 sd nonce \<equiv>
     demo_world1\<lparr>fetch_log := [[4, 3, 2, 1]], random_used := 48,
       encrypt_log := [(demo_secret, [sd], nonce), (demo_secret, [1000000000], nonce),
                       (demo_secret, [100000000], nonce), (demo_secret, [142500000], nonce)]\<rparr>"

abbreviation sent_back :: "EncryptedTradeParams \<Rightarrow> bytes \<Rightarrow> EncryptedData" where
  "sent_back e lev \<equiv>
     \<lparr>side_data = side_enc e, sizeUsd_data = sizeUsd_enc e, collateral_data = collateral_enc e,
      entryPrice_data = entryPrice_enc e, leverage_data = lev\<rparr>"

text \<open>Replies of the package's key fetch: never a key; a key at the third call.\<close>

definition never_key :: "nat \<Rightarrow> lib_reply" where
  "never_key n = (if even n then Thrown else NothingReturned)"

definition key_at_third :: "nat \<Rightarrow> lib_reply" where
  "key_at_third n = (if n = 3 then KeyReturned [7, 7, 7] else Thrown)"

section \<open>The product of two doubles\<close>

lemma binade_numeral:
  "binade (numeral k) a =
     (if 2 \<le> a then binade (pred_numeral k) (a / 2) + 1
      else if a < 1 then binade (pred_numeral k) (2 * a) - 1
      else 0)"
  by (simp add: numeral_eq_Suc)

lemma pow2_step: "(2::real) powi (e + 1) = 2 * 2 powi e" "(2::real) powi (e - 1) = 2 powi e / 2"
  by (simp_all add: power_int_add power_int_diff)

text \<open>The exponent is found when the magnitude lies within reach of the halvings and doublings.\<close>

lemma binade_bounds:
  "2 powi (- int n) \<le> a \<Longrightarrow> a < 2 powi (int n + 1)
     \<Longrightarrow> 2 powi (binade n a) \<le> a \<and> a < 2 powi (binade n a + 1)"
proof (induction n arbitrary: a)
  case 0
  then show ?case by simp
next
  case (Suc n)
  have small: "(2::real) powi (- int n) \<le> 1"
    by (simp add: power_int_minus inverse_le_1_iff)
  show ?case
  proof (cases "2 \<le> a")
    case True
    have "2 powi (- int n) \<le> a / 2" using small True by simp
    moreover have "a / 2 < 2 powi (int n + 1)"
    proof -
      have "int (Suc n) + 1 = (int n + 1) + 1" by simp
      then have "(2::real) powi (int (Suc n) + 1) = 2 * 2 powi (int n + 1)"
        by (simp only: pow2_step)
      with Suc.prems(2) show ?thesis by simp
    qed
    ultimately have "2 powi (binade n (a / 2)) \<le> a / 2 \<and> a / 2 < 2 powi (binade n (a / 2) + 1)"
      by (rule Suc.IH)
    then have "2 powi (binade n (a / 2) + 1) \<le> a \<and> a < 2 powi (binade n (a / 2) + 1 + 1)"
      by (simp only: pow2_step) simp
    moreover have "binade (Suc n) a = binade n (a / 2) + 1" using True by simp
    ultimately show ?thesis by (simp only:)
  next
    case False
    show ?thesis
    proof (cases "a < 1")
      case True
      have "2 powi (- int n) \<le> 2 * a"
      proof -
        have "- int n = (- int (Suc n)) + 1" by simp
        then have "(2::real) powi (- int n) = 2 * 2 powi (- int (Suc n))"
          by (simp only: pow2_step)
        with Suc.prems(1) show ?thesis by simp
      qed
      moreover have "2 * a < 2 powi (int n + 1)"
      proof -
        have "(1::real) \<le> 2 ^ n" by (simp add: one_le_power)
        with True have "a < 2 ^ n" by (rule less_le_trans)
        then show ?thesis by (simp add: pow2_step)
      qed
      ultimately have "2 powi (binade n (2 * a)) \<le> 2 * a \<and> 2 * a < 2 powi (binade n (2 * a) + 1)"
        by (rule Suc.IH)
      then have "2 powi (binade n (2 * a) - 1) \<le> a \<and> a < 2 powi (binade n (2 * a) - 1 + 1)"
        by (simp add: pow2_step)
      moreover have "binade (Suc n) a = binade n (2 * a) - 1" using True False by simp
      ultimately show ?thesis by (simp only:)
    next
      case False
      with \<open>\<not> 2 \<le> a\<close> show ?thesis by simp
    qed
  qed
qed

lemma quantum_pos: "0 < quantum a"
  by (simp add: quantum_def)

text \<open>The quantum of a magnitude is at most its \<open>2^52\<close>-th part, or the least quantum.\<close>

lemma quantum_bound:
  assumes "0 < a" "a < 2 ^ 1024"
  shows "quantum a \<le> max (a / 2 ^ 52) (1 / 2 ^ 1074)"
proof (cases "a < 2 powi (- 1022)")
  case True
  then show ?thesis by (simp add: quantum_def)
next
  case False
  have "2 powi (- int 1024) \<le> a" using False by simp
  moreover have "a < 2 powi (int 1024 + 1)" using assms(2) by simp
  ultimately have "2 powi (binade 1024 a) \<le> a" using binade_bounds by blast
  then have "2 powi (binade 1024 a - 52) \<le> a / 2 ^ 52"
    by (simp add: power_int_diff field_simps)
  then show ?thesis using False by (simp add: quantum_def)
qed

lemma round_half_even_nonneg: "0 \<le> r \<Longrightarrow> 0 \<le> round_half_even r"
  by (simp add: round_half_even_def)

lemma round_half_even_error: "\<bar>of_int (round_half_even r) - r\<bar> \<le> 1 / 2"
  unfolding round_half_even_def by (auto simp: abs_le_iff)

lemma round_double_nonneg: "0 \<le> a \<Longrightarrow> 0 \<le> round_double a"
  using quantum_pos [of "\<bar>a\<bar>"]
  by (simp add: round_double_def round_half_even_nonneg less_imp_le)

lemma round_double_error: "\<bar>round_double a - a\<bar> \<le> quantum \<bar>a\<bar> / 2"
proof (cases "a = 0")
  case True
  then show ?thesis using quantum_pos [of 0] by (simp add: round_double_def)
next
  case False
  let ?q = "quantum \<bar>a\<bar>"
  have q: "0 < ?q" by (rule quantum_pos)
  have "round_double a - a = (of_int (round_half_even (a / ?q)) - a / ?q) * ?q"
    using False q by (simp add: round_double_def algebra_simps)
  then have "\<bar>round_double a - a\<bar> = \<bar>of_int (round_half_even (a / ?q)) - a / ?q\<bar> * ?q"
    using q by (simp add: abs_mult)
  also have "\<dots> \<le> (1 / 2) * ?q"
    using round_half_even_error [of "a / ?q"] q by (intro mult_right_mono) simp_all
  finally show ?thesis by simp
qed

text \<open>Rounding moves a magnitude by at most its \<open>2^53\<close>-th part, or by half the least quantum.\<close>

lemma round_double_close:
  assumes "0 \<le> a" "a < overflow_threshold"
  shows "\<bar>round_double a - a\<bar> \<le> max (a / 2 ^ 53) (1 / 2 ^ 1075)"
proof (cases "a = 0")
  case True
  then show ?thesis by (simp add: round_double_def)
next
  case False
  with assms have pos: "0 < a" by simp
  have "a < 2 ^ 1024" using assms(2) by (simp add: overflow_threshold_def)
  from quantum_bound [OF pos this] have "quantum a / 2 \<le> max (a / 2 ^ 52) (1 / 2 ^ 1074) / 2"
    by simp
  also have "\<dots> = max (a / 2 ^ 53) (1 / 2 ^ 1075)" by (simp add: max_def)
  finally show ?thesis using round_double_error [of a] pos by simp
qed

text \<open>The product with 1000000 of an amount that is not negative.\<close>

lemma double_mul_scaled:
  assumes "0 \<le> x" "x * 1000000 < overflow_threshold"
  shows "double_mul (Finite x) (Finite 1000000) = Finite (round_double (x * 1000000))"
  using assms by simp

lemma double_mul_overflow:
  assumes "0 \<le> x" "\<not> x * 1000000 < overflow_threshold"
  shows "double_mul (Finite x) (Finite 1000000) = PosInfinity"
proof -
  have "0 < overflow_threshold" by (simp add: overflow_threshold_def)
  with assms show ?thesis by simp
qed

lemmas double_mul_eval =
  round_double_def quantum_def binade_numeral round_half_even_def overflow_threshold_def

section \<open>The key fetch and its retry\<close>

lemma retry_sleep_sum:
  "attempt \<le> maxRetries \<Longrightarrow>
   (if attempt < maxRetries then slept + d else slept) + (maxRetries - (attempt + 1)) * d
     = slept + (maxRetries - attempt) * (d::nat)"
proof (cases "attempt < maxRetries")
  case True
  then have "maxRetries - attempt = Suc (maxRetries - (attempt + 1))" by simp
  then show ?thesis using True by simp
next
  case False
  assume "attempt \<le> maxRetries"
  with False have "attempt = maxRetries" by simp
  then show ?thesis by simp
qed

lemma retry_loop_exhausted:
  "\<forall>i. attempt \<le> i \<and> i \<le> maxRetries \<longrightarrow> returned_key (lib i) = None \<Longrightarrow>
   attempt \<le> maxRetries + 1 \<Longrightarrow>
   retry_loop lib maxRetries d attempt slept =
     (Inl (FetchKeyExhausted maxRetries), maxRetries, slept + (maxRetries - attempt) * d)"
proof (induction lib maxRetries d attempt slept rule: retry_loop.induct)
  case (1 lib maxRetries d attempt slept)
  show ?case
  proof (cases "attempt \<le> maxRetries")
    case False
    with "1.prems" have "attempt = maxRetries + 1" by simp
    then show ?thesis by simp
  next
    case True
    with "1.prems" have nk: "returned_key (lib attempt) = None" by simp
    have rest: "\<forall>i. attempt + 1 \<le> i \<and> i \<le> maxRetries \<longrightarrow> returned_key (lib i) = None"
      using "1.prems" by simp
    have le: "attempt + 1 \<le> maxRetries + 1" using True by simp
    have "retry_loop lib maxRetries d attempt slept =
          retry_loop lib maxRetries d (attempt + 1)
            (if attempt < maxRetries then slept + d else slept)"
      using True nk by simp
    also have "\<dots> = (Inl (FetchKeyExhausted maxRetries), maxRetries,
          (if attempt < maxRetries then slept + d else slept) + (maxRetries - (attempt + 1)) * d)"
      using "1.IH" [OF True nk rest le] .
    finally show ?thesis using retry_sleep_sum [OF True] by simp
  qed
qed

lemma retry_loop_Inr:
  "retry_loop lib maxRetries d attempt slept = (Inr k, n, s) \<Longrightarrow>
   attempt \<le> n \<and> n \<le> maxRetries \<and> returned_key (lib n) = Some k
   \<and> s = slept + (n - attempt) * d
   \<and> (\<forall>i. attempt \<le> i \<and> i < n \<longrightarrow> returned_key (lib i) = None)"
proof (induction lib maxRetries d attempt slept rule: retry_loop.induct)
  case (1 lib maxRetries d attempt slept)
  show ?case
  proof (cases "attempt \<le> maxRetries")
    case False
    with "1.prems" show ?thesis by simp
  next
    case True
    show ?thesis
    proof (cases "returned_key (lib attempt)")
      case (Some k')
      with True "1.prems" show ?thesis by auto
    next
      case None
      from "1.prems" True None
      have "retry_loop lib maxRetries d (attempt + 1)
              (if attempt < maxRetries then slept + d else slept) = (Inr k, n, s)" by simp
      from "1.IH" [OF True None this]
      have ih: "attempt + 1 \<le> n" "n \<le> maxRetries" "returned_key (lib n) = Some k"
        "s = (if attempt < maxRetries then slept + d else slept) + (n - (attempt + 1)) * d"
        "\<forall>i. attempt + 1 \<le> i \<and> i < n \<longrightarrow> returned_key (lib i) = None" by auto
      have lt: "attempt < maxRetries" using ih(1,2) by simp
      have "n - attempt = Suc (n - (attempt + 1))" using ih(1) by simp
      then have "s = slept + (n - attempt) * d" using ih(4) lt by simp
      moreover have "\<forall>i. attempt \<le> i \<and> i < n \<longrightarrow> returned_key (lib i) = None"
      proof (intro allI impI)
        fix i assume "attempt \<le> i \<and> i < n"
        then show "returned_key (lib i) = None"
          using ih(5) None by (cases "i = attempt") auto
      qed
      ultimately show ?thesis using ih(1,2,3) by simp
    qed
  qed
qed

lemma retry_loop_Inl:
  "retry_loop lib maxRetries d attempt slept = (Inl e, n, s) \<Longrightarrow>
   e = FetchKeyExhausted maxRetries \<and>
   (\<forall>i. attempt \<le> i \<and> i \<le> maxRetries \<longrightarrow> returned_key (lib i) = None)"
proof (induction lib maxRetries d attempt slept rule: retry_loop.induct)
  case (1 lib maxRetries d attempt slept)
  show ?case
  proof (cases "attempt \<le> maxRetries")
    case False
    with "1.prems" show ?thesis by auto
  next
    case True
    show ?thesis
    proof (cases "returned_key (lib attempt)")
      case (Some k')
      with True "1.prems" show ?thesis by simp
    next
      case None
      from "1.prems" True None
      have "retry_loop lib maxRetries d (attempt + 1)
              (if attempt < maxRetries then slept + d else slept) = (Inl e, n, s)" by simp
      from "1.IH" [OF True None this]
      have ih: "e = FetchKeyExhausted maxRetries"
        "\<forall>i. attempt + 1 \<le> i \<and> i \<le> maxRetries \<longrightarrow> returned_key (lib i) = None" by auto
      have "\<forall>i. attempt \<le> i \<and> i \<le> maxRetries \<longrightarrow> returned_key (lib i) = None"
      proof (intro allI impI)
        fix i assume "attempt \<le> i \<and> i \<le> maxRetries"
        then show "returned_key (lib i) = None"
          using ih(2) None by (cases "i = attempt") auto
      qed
      with ih(1) show ?thesis by simp
    qed
  qed
qed

lemma getMXEPublicKey_absent:
  "mxePublicKey c = None \<Longrightarrow>
   findProgramAddressSync ext [''mxe_config''] (programId c) = Some pda \<Longrightarrow>
   led pda = NoAccount \<Longrightarrow>
   getMXEPublicKey ext led c w = (Inl CouldNotInitialize, c, w\<lparr>fetch_log := fetch_log w @ [pda]\<rparr>)"
  by (simp add: getMXEPublicKey_def)

text \<open>
  Claim C4. With no cached key and no configuration account on the ledger, the client's
  key fetch ends in an error. The helper of the test suite retries the package's fetch at
  most \<open>maxRetries\<close> times with \<open>retryDelayMs\<close> between two attempts (20 times and 2000 ms
  in the \<open>before\<close> hook, 38 seconds of delay in all); when no attempt gives a key it ends in
  the error \<open>FetchKeyExhausted\<close>, which is not the client's error, and it returns a key
  only if an attempt within the bound gave that key.
\<close>

theorem key_fetch_fails_and_retry_is_bounded:
  "(mxePublicKey c = None \<and> findProgramAddressSync ext [''mxe_config''] (programId c) = Some pda
      \<and> led pda = NoAccount
    \<longrightarrow> getMXEPublicKey ext led c w
          = (Inl CouldNotInitialize, c, w\<lparr>fetch_log := fetch_log w @ [pda]\<rparr>))
   \<and> ((\<forall>i. 1 \<le> i \<and> i \<le> maxRetries \<longrightarrow> returned_key (lib i) = None)
    \<longrightarrow> getMXEPublicKeyWithRetry lib maxRetries retryDelayMs
          = (Inl (FetchKeyExhausted maxRetries), maxRetries, (maxRetries - 1) * retryDelayMs))
   \<and> (\<forall>k n s. getMXEPublicKeyWithRetry lib maxRetries retryDelayMs = (Inr k, n, s)
    \<longrightarrow> 1 \<le> n \<and> n \<le> maxRetries \<and> lib n = KeyReturned k \<and> s = (n - 1) * retryDelayMs)
   \<and> ((\<forall>i. 1 \<le> i \<and> i \<le> 20 \<longrightarrow> returned_key (lib i) = None)
    \<longrightarrow> before_fetch_key lib = (Inl (FetchKeyExhausted 20), 20, 38000))
   \<and> fst (snd (getMXEPublicKeyWithRetry lib maxRetries retryDelayMs)) \<le> maxRetries
   \<and> FetchKeyExhausted maxRetries \<noteq> CouldNotInitialize"
proof -
  have A: "mxePublicKey c = None \<and> findProgramAddressSync ext [''mxe_config''] (programId c) = Some pda
      \<and> led pda = NoAccount
    \<longrightarrow> getMXEPublicKey ext led c w
          = (Inl CouldNotInitialize, c, w\<lparr>fetch_log := fetch_log w @ [pda]\<rparr>)"
    by (simp add: getMXEPublicKey_absent)
  have B: "(\<forall>i. 1 \<le> i \<and> i \<le> m \<longrightarrow> returned_key (lib i) = None)
    \<longrightarrow> getMXEPublicKeyWithRetry lib m d = (Inl (FetchKeyExhausted m), m, (m - 1) * d)" for m d
  proof
    assume "\<forall>i. 1 \<le> i \<and> i \<le> m \<longrightarrow> returned_key (lib i) = None"
    from retry_loop_exhausted [OF this, of d 0]
    show "getMXEPublicKeyWithRetry lib m d = (Inl (FetchKeyExhausted m), m, (m - 1) * d)"
      by (simp add: getMXEPublicKeyWithRetry_def)
  qed
  have C: "\<forall>k n s. getMXEPublicKeyWithRetry lib maxRetries retryDelayMs = (Inr k, n, s)
    \<longrightarrow> 1 \<le> n \<and> n \<le> maxRetries \<and> lib n = KeyReturned k \<and> s = (n - 1) * retryDelayMs"
  proof (intro allI impI)
    fix k n s
    assume "getMXEPublicKeyWithRetry lib maxRetries retryDelayMs = (Inr k, n, s)"
    then have "retry_loop lib maxRetries retryDelayMs 1 0 = (Inr k, n, s)"
      by (simp add: getMXEPublicKeyWithRetry_def)
    from retry_loop_Inr [OF this]
    have r: "1 \<le> n" "n \<le> maxRetries" "returned_key (lib n) = Some k" "s = (n - 1) * retryDelayMs"
      by auto
    from r(3) have "lib n = KeyReturned k" by (cases "lib n") auto
    with r show "1 \<le> n \<and> n \<le> maxRetries \<and> lib n = KeyReturned k \<and> s = (n - 1) * retryDelayMs"
      by simp
  qed
  have D: "(\<forall>i. 1 \<le> i \<and> i \<le> 20 \<longrightarrow> returned_key (lib i) = None)
    \<longrightarrow> before_fetch_key lib = (Inl (FetchKeyExhausted 20), 20, 38000)"
    using B [of 20 2000] by (simp add: before_fetch_key_def)
  have E: "FetchKeyExhausted maxRetries \<noteq> CouldNotInitialize" by simp
  have F: "fst (snd (getMXEPublicKeyWithRetry lib maxRetries retryDelayMs)) \<le> maxRetries"
  proof (cases "getMXEPublicKeyWithRetry lib maxRetries retryDelayMs")
    case (fields r n s)
    show ?thesis
    proof (cases r)
      case (Inr k)
      with fields C show ?thesis by simp
    next
      case (Inl e)
      with fields have "retry_loop lib maxRetries retryDelayMs 1 0 = (Inl e, n, s)"
        by (simp add: getMXEPublicKeyWithRetry_def)
      from retry_loop_Inl [OF this]
      have "\<forall>i. 1 \<le> i \<and> i \<le> maxRetries \<longrightarrow> returned_key (lib i) = None" by simp
      with B [of maxRetries retryDelayMs] show ?thesis by simp
    qed
  qed
  show ?thesis
    by (intro conjI) (rule A, rule B, rule C, rule D, rule F, rule E)
qed

text \<open>The reference client and world.\<close>

lemma demo_client_fields:
  "programId demo_client = [1, 2, 3, 4]" "mxePublicKey demo_client = None"
  "length (privateKey demo_client) = 32"
  by (simp_all add: demo_client_def new_ArciumClient_def randomBytes_def Let_def)

theorem key_fetch_witness:
  "getMXEPublicKey demo_externals absent_ledger demo_client demo_world1
     = (Inl CouldNotInitialize, demo_client,
        demo_world1\<lparr>fetch_log := fetch_log demo_world1 @ [[4, 3, 2, 1]]\<rparr>)
   \<and> getMXEPublicKeyWithRetry never_key 3 1000 = (Inl (FetchKeyExhausted 3), 3, 2000)
   \<and> getMXEPublicKeyWithRetry key_at_third 5 1000 = (Inr [7, 7, 7], 3, 2000)
   \<and> key_at_third 3 = KeyReturned [7, 7, 7]
   \<and> before_fetch_key never_key = (Inl (FetchKeyExhausted 20), 20, 38000)"
proof -
  have h1: "mxePublicKey demo_client = None
      \<and> findProgramAddressSync demo_externals [''mxe_config''] (programId demo_client)
          = Some [4, 3, 2, 1]
      \<and> absent_ledger [4, 3, 2, 1] = NoAccount"
    by (simp add: demo_client_fields demo_externals_def absent_ledger_def)
  have h2: "\<forall>i. 1 \<le> i \<and> i \<le> m \<longrightarrow> returned_key (never_key i) = None" for m
    by (simp add: never_key_def)
  have h3: "getMXEPublicKeyWithRetry key_at_third 5 1000 = (Inr [7, 7, 7], 3, 2000)"
    by (simp add: getMXEPublicKeyWithRetry_def key_at_third_def)
  note t1 = key_fetch_fails_and_retry_is_bounded
    [where c = demo_client and ext = demo_externals and pda = "[4, 3, 2, 1]"
       and led = absent_ledger and w = demo_world1 and lib = never_key
       and maxRetries = 3 and retryDelayMs = 1000]
  note t2 = key_fetch_fails_and_retry_is_bounded
    [where c = demo_client and ext = demo_externals and pda = "[4, 3, 2, 1]"
       and led = absent_ledger and w = demo_world1 and lib = key_at_third
       and maxRetries = 5 and retryDelayMs = 1000]
  from t1 h1 h2 [of 3] h2 [of 20] t2 h3 show ?thesis by simp
qed

section \<open>Encryption and decryption: what a call does\<close>

lemma getMXEPublicKey_cached:
  "mxePublicKey c = Some k \<Longrightarrow> getMXEPublicKey ext led c w = (Inr k, c, w)"
  by (simp add: getMXEPublicKey_def)

lemma getMXEPublicKey_Inr:
  assumes "getMXEPublicKey ext led c w = (Inr k, c', w')"
  shows "mxePublicKey c' = Some k" "privateKey c' = privateKey c" "publicKey c' = publicKey c"
    "programId c' = programId c" "random_tape w' = random_tape w" "random_used w' = random_used w"
    "encrypt_log w' = encrypt_log w"
  using assms
  by (auto simp: getMXEPublicKey_def Let_def split: option.splits rpc_reply.splits)

lemma getMXEPublicKey_Inl:
  assumes "getMXEPublicKey ext led c w = (Inl e, c', w')"
  shows "e = CouldNotInitialize" "c' = c" "mxePublicKey c = None"
    "random_tape w' = random_tape w" "random_used w' = random_used w"
    "encrypt_log w' = encrypt_log w"
  using assms
  by (auto simp: getMXEPublicKey_def Let_def split: option.splits rpc_reply.splits)

lemma encrypt_one_Inr:
  "encrypt_one ext s v n w = (Inr ct, w') \<Longrightarrow>
   (\<exists>cs. rescue_encrypt ext s [v] n = Some cs \<and> ct = first_ciphertext cs)
   \<and> w' = w\<lparr>encrypt_log := encrypt_log w @ [(s, [v], n)]\<rparr>"
  by (auto simp: encrypt_one_def Let_def split: option.splits)

lemma encrypt_one_Inl:
  "encrypt_one ext s v n w = (Inl e, w') \<Longrightarrow>
   e = CipherThrows \<and> rescue_encrypt ext s [v] n = None
   \<and> w' = w\<lparr>encrypt_log := encrypt_log w @ [(s, [v], n)]\<rparr>"
  by (auto simp: encrypt_one_def Let_def split: option.splits)

lemma encrypt_one_Some:
  "rescue_encrypt ext s [v] n = Some cs \<Longrightarrow>
   encrypt_one ext s v n w
     = (Inr (first_ciphertext cs), w\<lparr>encrypt_log := encrypt_log w @ [(s, [v], n)]\<rparr>)"
  by (simp add: encrypt_one_def Let_def)

lemma BigInt_floor_Inr:
  "BigInt (Math_floor n) = Inr v \<Longrightarrow> \<exists>x. n = Finite x \<and> v = \<lfloor>x\<rfloor>"
  by (cases n) auto

text \<open>What a successful call did.\<close>

lemma encryptTradeParams_Inr:
  assumes "encryptTradeParams ext led c w params = (Inr e, c', w')"
  shows "\<exists>k w1 s xs ys zs cs1 cs2 cs3 cs4.
      getMXEPublicKey ext led c w = (Inr k, c', w1)
    \<and> x25519_getSharedSecret ext (privateKey c') k = Some s
    \<and> nonce_enc e = map (random_tape w1) [random_used w1 ..< random_used w1 + 16]
    \<and> float_mul ext (sizeUsd params) (Finite 1000000) = Finite xs
    \<and> float_mul ext (collateral params) (Finite 1000000) = Finite ys
    \<and> float_mul ext (entryPrice params) (Finite 1000000) = Finite zs
    \<and> rescue_encrypt ext s [if side params = Long then 1 else 0] (nonce_enc e) = Some cs1
    \<and> rescue_encrypt ext s [\<lfloor>xs\<rfloor>] (nonce_enc e) = Some cs2
    \<and> rescue_encrypt ext s [\<lfloor>ys\<rfloor>] (nonce_enc e) = Some cs3
    \<and> rescue_encrypt ext s [\<lfloor>zs\<rfloor>] (nonce_enc e) = Some cs4
    \<and> e = \<lparr>side_enc = first_ciphertext cs1, sizeUsd_enc = first_ciphertext cs2,
            collateral_enc = first_ciphertext cs3, entryPrice_enc = first_ciphertext cs4,
            publicKey_enc = publicKey c', nonce_enc = nonce_enc e\<rparr>
    \<and> w' = w1\<lparr>random_used := random_used w1 + 16,
              encrypt_log := encrypt_log w1 @
                [(s, [if side params = Long then 1 else 0], nonce_enc e),
                 (s, [\<lfloor>xs\<rfloor>], nonce_enc e),
                 (s, [\<lfloor>ys\<rfloor>], nonce_enc e),
                 (s, [\<lfloor>zs\<rfloor>], nonce_enc e)]\<rparr>"
  using assms
  by (auto simp: encryptTradeParams_def randomBytes_def Let_def
           split: prod.splits sum.splits option.splits
           dest!: encrypt_one_Inr BigInt_floor_Inr)

lemma encryptTradeParams_succeeds:
  assumes key: "getMXEPublicKey ext led c w = (Inr k, c1, w1)"
    and sec: "x25519_getSharedSecret ext (privateKey c1) k = Some s"
    and n: "nonce = map (random_tape w1) [random_used w1 ..< random_used w1 + 16]"
    and m: "float_mul ext (sizeUsd params) (Finite 1000000) = Finite xs"
      "float_mul ext (collateral params) (Finite 1000000) = Finite ys"
      "float_mul ext (entryPrice params) (Finite 1000000) = Finite zs"
    and e1: "rescue_encrypt ext s [if side params = Long then 1 else 0] nonce = Some cs1"
    and e2: "rescue_encrypt ext s [\<lfloor>xs\<rfloor>] nonce = Some cs2"
    and e3: "rescue_encrypt ext s [\<lfloor>ys\<rfloor>] nonce = Some cs3"
    and e4: "rescue_encrypt ext s [\<lfloor>zs\<rfloor>] nonce = Some cs4"
  shows "encryptTradeParams ext led c w params =
     (Inr \<lparr>side_enc = first_ciphertext cs1, sizeUsd_enc = first_ciphertext cs2,
           collateral_enc = first_ciphertext cs3, entryPrice_enc = first_ciphertext cs4,
           publicKey_enc = publicKey c1, nonce_enc = nonce\<rparr>,
      c1,
      w1\<lparr>random_used := random_used w1 + 16,
         encrypt_log := encrypt_log w1 @
           [(s, [if side params = Long then 1 else 0], nonce),
            (s, [\<lfloor>xs\<rfloor>], nonce),
            (s, [\<lfloor>ys\<rfloor>], nonce),
            (s, [\<lfloor>zs\<rfloor>], nonce)]\<rparr>)"
  using e1 e2 e3 e4
  by (simp add: encryptTradeParams_def key sec m randomBytes_def n [symmetric] encrypt_one_Some)

text \<open>
  A product that is not a finite number ends the call with a \<open>RangeError\<close>, before anything
  is encrypted.
\<close>

lemma BigInt_floor_Finite: "BigInt (Math_floor (Finite r)) = Inr \<lfloor>r\<rfloor>"
  by simp

lemma BigInt_floor_not_Finite: "\<forall>r. n \<noteq> Finite r \<Longrightarrow> BigInt (Math_floor n) = Inl RangeError"
  by (cases n) simp_all

lemma BigInt_Inl: "BigInt n = Inl e \<Longrightarrow> e = RangeError"
  by (cases n) (auto split: if_splits)

lemma encryptTradeParams_RangeError:
  assumes key: "getMXEPublicKey ext led c w = (Inr k, c1, w1)"
    and sec: "x25519_getSharedSecret ext (privateKey c1) k = Some s"
    and m: "(\<forall>xs. float_mul ext (sizeUsd params) (Finite 1000000) \<noteq> Finite xs)
          \<or> (\<forall>ys. float_mul ext (collateral params) (Finite 1000000) \<noteq> Finite ys)
          \<or> (\<forall>zs. float_mul ext (entryPrice params) (Finite 1000000) \<noteq> Finite zs)"
  shows "encryptTradeParams ext led c w params
     = (Inl RangeError, c1, w1\<lparr>random_used := random_used w1 + 16\<rparr>)"
proof -
  let ?a = "BigInt (Math_floor (float_mul ext (sizeUsd params) (Finite 1000000)))"
  let ?b = "BigInt (Math_floor (float_mul ext (collateral params) (Finite 1000000)))"
  let ?c = "BigInt (Math_floor (float_mul ext (entryPrice params) (Finite 1000000)))"
  have err: "?a = Inl e \<Longrightarrow> e = RangeError" "?b = Inl e \<Longrightarrow> e = RangeError"
    "?c = Inl e \<Longrightarrow> e = RangeError" for e
    by (erule BigInt_Inl)+
  from m have "?a = Inl RangeError \<or> ?b = Inl RangeError \<or> ?c = Inl RangeError"
    using BigInt_floor_not_Finite by blast
  then show ?thesis
    using err
    by (auto simp: encryptTradeParams_def key sec randomBytes_def split: sum.splits)
qed

text \<open>Decryption of one field under the contract of the cipher.\<close>

lemma roundtrip_one:
  assumes "cipher_roundtrip ext p" "length nonce = 16" "0 \<le> v" "v < p"
  shows "\<exists>ct. rescue_encrypt ext s [v] nonce = Some [ct]
             \<and> decrypt_one ext s ct nonce = Inr (Some v)"
proof -
  from assms obtain ct where
    "rescue_encrypt ext s [v] nonce = Some [ct]" "rescue_decrypt ext s [ct] nonce = Some [v]"
    unfolding cipher_roundtrip_def by blast
  then show ?thesis by (auto simp: decrypt_one_def first_plaintext_def)
qed

lemma decryptPosition_cached:
  assumes "mxePublicKey c = Some k"
    and "x25519_getSharedSecret ext (privateKey c) k = Some s"
    and "decrypt_one ext s (side_data d) nonce = Inr v1"
    and "decrypt_one ext s (sizeUsd_data d) nonce = Inr v2"
    and "decrypt_one ext s (collateral_data d) nonce = Inr v3"
    and "decrypt_one ext s (entryPrice_data d) nonce = Inr v4"
  shows "decryptPosition ext led c w d nonce =
     ((case decrypt_one ext s (leverage_data d) nonce of
         Inl err \<Rightarrow> Inl err
       | Inr lv \<Rightarrow> Inr \<lparr>side_dec = v1, sizeUsd_dec = v2, collateral_dec = v3,
                        entryPrice_dec = v4, leverage_dec = lv\<rparr>), c, w)"
  using assms
  by (simp add: decryptPosition_def getMXEPublicKey_cached split: sum.splits)

lemma decryptPosition_Inr_side:
  assumes "mxePublicKey c = Some k"
    and "x25519_getSharedSecret ext (privateKey c) k = Some s"
    and "fst (decryptPosition ext led c w d nonce) = Inr r"
  shows "decrypt_one ext s (side_data d) nonce = Inr (side_dec r)"
  using assms
  by (auto simp: decryptPosition_def getMXEPublicKey_cached split: sum.splits)

text \<open>Encryption followed by decryption, in full.\<close>

lemma encrypt_then_decrypt:
  assumes contract: "cipher_roundtrip ext p"
    and key: "getMXEPublicKey ext led c w = (Inr k, c1, w1)"
    and sec: "x25519_getSharedSecret ext (privateKey c) k = Some s"
    and m: "float_mul ext (sizeUsd params) (Finite 1000000) = Finite xs"
      "float_mul ext (collateral params) (Finite 1000000) = Finite ys"
      "float_mul ext (entryPrice params) (Finite 1000000) = Finite zs"
    and range: "1 < p" "0 \<le> \<lfloor>xs\<rfloor>" "\<lfloor>xs\<rfloor> < p" "0 \<le> \<lfloor>ys\<rfloor>" "\<lfloor>ys\<rfloor> < p"
      "0 \<le> \<lfloor>zs\<rfloor>" "\<lfloor>zs\<rfloor> < p"
  shows "\<exists>e.
      encryptTradeParams ext led c w params =
        (Inr e, c1,
         w1\<lparr>random_used := random_used w1 + 16,
            encrypt_log := encrypt_log w1 @
              [(s, [if side params = Long then 1 else 0], nonce_enc e),
               (s, [\<lfloor>xs\<rfloor>], nonce_enc e),
               (s, [\<lfloor>ys\<rfloor>], nonce_enc e),
               (s, [\<lfloor>zs\<rfloor>], nonce_enc e)]\<rparr>)
    \<and> nonce_enc e = map (random_tape w) [random_used w ..< random_used w + 16]
    \<and> publicKey_enc e = publicKey c
    \<and> decrypt_one ext s (side_enc e) (nonce_enc e)
        = Inr (Some (if side params = Long then 1 else 0))
    \<and> decrypt_one ext s (sizeUsd_enc e) (nonce_enc e) = Inr (Some \<lfloor>xs\<rfloor>)
    \<and> decrypt_one ext s (collateral_enc e) (nonce_enc e) = Inr (Some \<lfloor>ys\<rfloor>)
    \<and> decrypt_one ext s (entryPrice_enc e) (nonce_enc e) = Inr (Some \<lfloor>zs\<rfloor>)
    \<and> (\<forall>led' w'' lev.
          decryptPosition ext led' c1 w'' (sent_back e lev) (nonce_enc e)
          = ((case decrypt_one ext s lev (nonce_enc e) of
                Inl err \<Rightarrow> Inl err
              | Inr lv \<Rightarrow>
                  Inr \<lparr>side_dec = Some (if side params = Long then 1 else 0),
                       sizeUsd_dec = Some \<lfloor>xs\<rfloor>,
                       collateral_dec = Some \<lfloor>ys\<rfloor>,
                       entryPrice_dec = Some \<lfloor>zs\<rfloor>,
                       leverage_dec = lv\<rparr>), c1, w''))"
proof -
  define nonce where "nonce = map (random_tape w1) [random_used w1 ..< random_used w1 + 16]"
  have len: "length nonce = 16" by (simp add: nonce_def)
  note k1 = getMXEPublicKey_Inr [OF key]
  have sec1: "x25519_getSharedSecret ext (privateKey c1) k = Some s"
    using sec k1(2) by simp
  have side_range: "0 \<le> (if side params = Long then 1 else 0 :: int)"
    "(if side params = Long then 1 else 0 :: int) < p"
    using range(1) by auto
  obtain ct1 where c1: "rescue_encrypt ext s [if side params = Long then 1 else 0] nonce = Some [ct1]"
      "decrypt_one ext s ct1 nonce = Inr (Some (if side params = Long then 1 else 0))"
    using roundtrip_one [OF contract len side_range] by blast
  obtain ct2 where c2: "rescue_encrypt ext s [\<lfloor>xs\<rfloor>] nonce = Some [ct2]"
      "decrypt_one ext s ct2 nonce = Inr (Some \<lfloor>xs\<rfloor>)"
    using roundtrip_one [OF contract len range(2,3)] by blast
  obtain ct3 where c3: "rescue_encrypt ext s [\<lfloor>ys\<rfloor>] nonce = Some [ct3]"
      "decrypt_one ext s ct3 nonce = Inr (Some \<lfloor>ys\<rfloor>)"
    using roundtrip_one [OF contract len range(4,5)] by blast
  obtain ct4 where c4: "rescue_encrypt ext s [\<lfloor>zs\<rfloor>] nonce = Some [ct4]"
      "decrypt_one ext s ct4 nonce = Inr (Some \<lfloor>zs\<rfloor>)"
    using roundtrip_one [OF contract len range(6,7)] by blast
  define e where "e = \<lparr>side_enc = ct1, sizeUsd_enc = ct2, collateral_enc = ct3,
    entryPrice_enc = ct4, publicKey_enc = publicKey c1, nonce_enc = nonce\<rparr>"
  have fields: "side_enc e = ct1" "sizeUsd_enc e = ct2" "collateral_enc e = ct3"
    "entryPrice_enc e = ct4" "nonce_enc e = nonce" "publicKey_enc e = publicKey c1"
    by (simp_all add: e_def)
  have enc: "encryptTradeParams ext led c w params =
        (Inr e, c1,
         w1\<lparr>random_used := random_used w1 + 16,
            encrypt_log := encrypt_log w1 @
              [(s, [if side params = Long then 1 else 0], nonce),
               (s, [\<lfloor>xs\<rfloor>], nonce),
               (s, [\<lfloor>ys\<rfloor>], nonce),
               (s, [\<lfloor>zs\<rfloor>], nonce)]\<rparr>)"
    using encryptTradeParams_succeeds [OF key sec1 nonce_def m c1(1) c2(1) c3(1) c4(1)]
    by (simp add: e_def first_ciphertext_def)
  have dec: "decryptPosition ext led' c1 w'' (sent_back e lev) (nonce_enc e)
          = ((case decrypt_one ext s lev (nonce_enc e) of
                Inl err \<Rightarrow> Inl err
              | Inr lv \<Rightarrow>
                  Inr \<lparr>side_dec = Some (if side params = Long then 1 else 0),
                       sizeUsd_dec = Some \<lfloor>xs\<rfloor>,
                       collateral_dec = Some \<lfloor>ys\<rfloor>,
                       entryPrice_dec = Some \<lfloor>zs\<rfloor>,
                       leverage_dec = lv\<rparr>), c1, w'')" for led' w'' lev
    using decryptPosition_cached [OF k1(1) sec1, of "sent_back e lev" nonce _ _ _ _ led' w'']
      c1(2) c2(2) c3(2) c4(2)
    by (simp add: fields)
  have n: "nonce_enc e = map (random_tape w) [random_used w ..< random_used w + 16]"
    by (simp add: fields nonce_def k1)
  show ?thesis
    apply (rule exI [of _ e])
    using enc dec n c1(2) c2(2) c3(2) c4(2) by (simp add: fields k1)
qed

section \<open>The reference instance\<close>

lemma byte_of_nat: "unat (word_of_nat k :: byte) = k mod 256"
  by (simp add: unat_of_nat)

lemma le_value_le_bytes: "le_value (le_bytes n k) = k mod 256 ^ n"
proof (induction n arbitrary: k)
  case 0
  show ?case by simp
next
  case (Suc n)
  have "le_value (le_bytes (Suc n) k) = k mod 256 + 256 * (k div 256 mod 256 ^ n)"
    by (simp add: Suc.IH byte_of_nat)
  also have "\<dots> = k mod (256 * 256 ^ n)"
    by (simp add: mod_mult2_eq)
  finally show ?case by simp
qed

lemma demo_order_pos: "0 < demo_order" "demo_order < 256 ^ 32"
  by (simp_all add: demo_order_def)

lemma demo_cipher_value:
  assumes "0 \<le> v" "v < demo_order"
  shows "(int (le_value (le_bytes 32 (nat ((v + ks) mod demo_order)))) - ks) mod demo_order = v"
proof -
  let ?c = "(v + ks) mod demo_order"
  have c: "0 \<le> ?c" "?c < demo_order" using demo_order_pos(1) by simp_all
  then have "nat ?c < 256 ^ 32" using demo_order_pos(2) by (simp add: nat_less_iff)
  then have "le_value (le_bytes 32 (nat ?c)) = nat ?c"
    by (simp add: le_value_le_bytes)
  then have "int (le_value (le_bytes 32 (nat ?c))) = ?c" using c(1) by simp
  then have "(int (le_value (le_bytes 32 (nat ?c))) - ks) mod demo_order
     = ((v + ks) mod demo_order - ks) mod demo_order" by simp
  also have "\<dots> = (v + ks - ks) mod demo_order" by (simp add: mod_diff_left_eq)
  also have "\<dots> = v" using assms by simp
  finally show ?thesis .
qed

lemma demo_cipher_roundtrip: "cipher_roundtrip demo_externals demo_order"
  unfolding cipher_roundtrip_def
  by (auto simp: demo_externals_def demo_encrypt_def demo_decrypt_def demo_cipher_value)

lemma demo_world1_fields:
  "random_used demo_world1 = 32" "fetch_log demo_world1 = []" "encrypt_log demo_world1 = []"
  "random_tape demo_world1 = random_tape demo_world"
  by (simp_all add: demo_world1_def demo_world_def new_ArciumClient_def randomBytes_def Let_def)

lemma demo_key_length: "length demo_key = 32"
  by (simp add: demo_key_def)

lemma demo_key_fetch:
  "getMXEPublicKey demo_externals demo_ledger demo_client demo_world1
     = (Inr demo_key, demo_client1, demo_world1\<lparr>fetch_log := fetch_log demo_world1 @ [[4, 3, 2, 1]]\<rparr>)"
  by (simp add: getMXEPublicKey_def demo_externals_def demo_ledger_def Let_def
        demo_client_fields demo_key_def demo_client1_def
        del: take_map drop_map drop_upt take_upt upt_rec_numeral)

lemma demo_key_exchange:
  "x25519_getSharedSecret demo_externals (privateKey demo_client) demo_key = Some demo_secret"
  by (simp add: demo_externals_def demo_client_fields demo_key_length demo_secret_def)

lemma demo_products:
  "float_mul demo_externals (sizeUsd demo_params) (Finite 1000000) = Finite 1000000000"
  "float_mul demo_externals (collateral demo_params) (Finite 1000000) = Finite 100000000"
  "float_mul demo_externals (entryPrice demo_params) (Finite 1000000) = Finite 142500000"
  "float_mul demo_externals (sizeUsd demo_short_params) (Finite 1000000) = Finite 1000000000"
  "float_mul demo_externals (collateral demo_short_params) (Finite 1000000) = Finite 100000000"
  "float_mul demo_externals (entryPrice demo_short_params) (Finite 1000000) = Finite 142500000"
  by (simp_all add: demo_externals_def demo_params_def demo_short_params_def double_mul_eval)

lemma demo_ranges:
  "1 < demo_order"
  "0 \<le> \<lfloor>1000000000 :: real\<rfloor>" "\<lfloor>1000000000 :: real\<rfloor> < demo_order"
  "0 \<le> \<lfloor>100000000 :: real\<rfloor>" "\<lfloor>100000000 :: real\<rfloor> < demo_order"
  "0 \<le> \<lfloor>142500000 :: real\<rfloor>" "\<lfloor>142500000 :: real\<rfloor> < demo_order"
  by (simp_all add: demo_order_def)

lemmas demo_long_instance =
  encrypt_then_decrypt [OF demo_cipher_roundtrip demo_key_fetch demo_key_exchange
    demo_products(1-3) demo_ranges]

lemmas demo_short_instance =
  encrypt_then_decrypt [OF demo_cipher_roundtrip demo_key_fetch demo_key_exchange
    demo_products(4-6) demo_ranges]

text \<open>The run of the reference client on the demonstration trade, and on its short twin.\<close>

lemma demo_run_result:
  "\<exists>e. demo_run = (Inr e, demo_client1, demo_world2 1 (nonce_enc e))
      \<and> decrypt_one demo_externals demo_secret (side_enc e) (nonce_enc e) = Inr (Some 1)
      \<and> decrypt_one demo_externals demo_secret (collateral_enc e) (nonce_enc e)
          = Inr (Some 100000000)
      \<and> (\<forall>led' w'' lev.
            decryptPosition demo_externals led' demo_client1 w'' (sent_back e lev) (nonce_enc e)
            = ((case decrypt_one demo_externals demo_secret lev (nonce_enc e) of
                  Inl err \<Rightarrow> Inl err
                | Inr lv \<Rightarrow>
                    Inr \<lparr>side_dec = Some 1, sizeUsd_dec = Some 1000000000,
                         collateral_dec = Some 100000000, entryPrice_dec = Some 142500000,
                         leverage_dec = lv\<rparr>), demo_client1, w''))"
proof -
  let ?w1 = "demo_world1\<lparr>fetch_log := fetch_log demo_world1 @ [[4, 3, 2, 1]]\<rparr>"
  from demo_long_instance obtain e where
    run: "encryptTradeParams demo_externals demo_ledger demo_client demo_world1 demo_params =
        (Inr e, demo_client1,
         ?w1\<lparr>random_used := random_used ?w1 + 16,
            encrypt_log := encrypt_log ?w1 @
              [(demo_secret, [if side demo_params = Long then 1 else 0], nonce_enc e),
               (demo_secret, [\<lfloor>1000000000 :: real\<rfloor>], nonce_enc e),
               (demo_secret, [\<lfloor>100000000 :: real\<rfloor>], nonce_enc e),
               (demo_secret, [\<lfloor>142500000 :: real\<rfloor>], nonce_enc e)]\<rparr>)"
    and d1: "decrypt_one demo_externals demo_secret (side_enc e) (nonce_enc e)
        = Inr (Some (if side demo_params = Long then 1 else 0))"
    and d3: "decrypt_one demo_externals demo_secret (collateral_enc e) (nonce_enc e)
        = Inr (Some \<lfloor>100000000 :: real\<rfloor>)"
    and dec: "\<forall>led' w'' lev.
          decryptPosition demo_externals led' demo_client1 w'' (sent_back e lev) (nonce_enc e)
          = ((case decrypt_one demo_externals demo_secret lev (nonce_enc e) of
                Inl err \<Rightarrow> Inl err
              | Inr lv \<Rightarrow>
                  Inr \<lparr>side_dec = Some (if side demo_params = Long then 1 else 0),
                       sizeUsd_dec = Some \<lfloor>1000000000 :: real\<rfloor>,
                       collateral_dec = Some \<lfloor>100000000 :: real\<rfloor>,
                       entryPrice_dec = Some \<lfloor>142500000 :: real\<rfloor>,
                       leverage_dec = lv\<rparr>), demo_client1, w'')"
    by blast
  have sd: "(if side demo_params = Long then 1 else 0 :: int) = 1"
    by (simp add: demo_params_def)
  have 1: "demo_run = (Inr e, demo_client1, demo_world2 1 (nonce_enc e))"
    unfolding demo_run_def run by (simp add: sd demo_world1_fields)
  have 2: "\<forall>led' w'' lev.
      decryptPosition demo_externals led' demo_client1 w'' (sent_back e lev) (nonce_enc e)
          = ((case decrypt_one demo_externals demo_secret lev (nonce_enc e) of
                Inl err \<Rightarrow> Inl err
              | Inr lv \<Rightarrow>
                  Inr \<lparr>side_dec = Some 1, sizeUsd_dec = Some 1000000000,
                       collateral_dec = Some 100000000, entryPrice_dec = Some 142500000,
                       leverage_dec = lv\<rparr>), demo_client1, w'')"
    using dec by (simp add: sd cong: sum.case_cong)
  have 3: "decrypt_one demo_externals demo_secret (side_enc e) (nonce_enc e) = Inr (Some 1)"
    using d1 by (simp add: sd)
  have 4: "decrypt_one demo_externals demo_secret (collateral_enc e) (nonce_enc e) = Inr (Some 100000000)"
    using d3 by simp
  show ?thesis
    by (intro exI [of _ e] conjI) (rule 1, rule 3, rule 4, rule 2)
qed

lemma demo_short_run_result:
  "\<exists>e. demo_short_run = (Inr e, demo_client1, demo_world2 0 (nonce_enc e))
      \<and> decrypt_one demo_externals demo_secret (side_enc e) (nonce_enc e) = Inr (Some 0)
      \<and> decrypt_one demo_externals demo_secret (collateral_enc e) (nonce_enc e)
          = Inr (Some 100000000)
      \<and> (\<forall>led' w'' lev.
            decryptPosition demo_externals led' demo_client1 w'' (sent_back e lev) (nonce_enc e)
            = ((case decrypt_one demo_externals demo_secret lev (nonce_enc e) of
                  Inl err \<Rightarrow> Inl err
                | Inr lv \<Rightarrow>
                    Inr \<lparr>side_dec = Some 0, sizeUsd_dec = Some 1000000000,
                         collateral_dec = Some 100000000, entryPrice_dec = Some 142500000,
                         leverage_dec = lv\<rparr>), demo_client1, w''))"
proof -
  let ?w1 = "demo_world1\<lparr>fetch_log := fetch_log demo_world1 @ [[4, 3, 2, 1]]\<rparr>"
  from demo_short_instance obtain e where
    run: "encryptTradeParams demo_externals demo_ledger demo_client demo_world1 demo_short_params =
        (Inr e, demo_client1,
         ?w1\<lparr>random_used := random_used ?w1 + 16,
            encrypt_log := encrypt_log ?w1 @
              [(demo_secret, [if side demo_short_params = Long then 1 else 0], nonce_enc e),
               (demo_secret, [\<lfloor>1000000000 :: real\<rfloor>], nonce_enc e),
               (demo_secret, [\<lfloor>100000000 :: real\<rfloor>], nonce_enc e),
               (demo_secret, [\<lfloor>142500000 :: real\<rfloor>], nonce_enc e)]\<rparr>)"
    and d1: "decrypt_one demo_externals demo_secret (side_enc e) (nonce_enc e)
        = Inr (Some (if side demo_short_params = Long then 1 else 0))"
    and d3: "decrypt_one demo_externals demo_secret (collateral_enc e) (nonce_enc e)
        = Inr (Some \<lfloor>100000000 :: real\<rfloor>)"
    and dec: "\<forall>led' w'' lev.
          decryptPosition demo_externals led' demo_client1 w'' (sent_back e lev) (nonce_enc e)
          = ((case decrypt_one demo_externals demo_secret lev (nonce_enc e) of
                Inl err \<Rightarrow> Inl err
              | Inr lv \<Rightarrow>
                  Inr \<lparr>side_dec = Some (if side demo_short_params = Long then 1 else 0),
                       sizeUsd_dec = Some \<lfloor>1000000000 :: real\<rfloor>,
                       collateral_dec = Some \<lfloor>100000000 :: real\<rfloor>,
                       entryPrice_dec = Some \<lfloor>142500000 :: real\<rfloor>,
                       leverage_dec = lv\<rparr>), demo_client1, w'')"
    by blast
  have sd: "(if side demo_short_params = Long then 1 else 0 :: int) = 0"
    by (simp add: demo_short_params_def)
  have 1: "demo_short_run = (Inr e, demo_client1, demo_world2 0 (nonce_enc e))"
    unfolding demo_short_run_def run by (simp add: sd demo_world1_fields)
  have 2: "\<forall>led' w'' lev.
      decryptPosition demo_externals led' demo_client1 w'' (sent_back e lev) (nonce_enc e)
          = ((case decrypt_one demo_externals demo_secret lev (nonce_enc e) of
                Inl err \<Rightarrow> Inl err
              | Inr lv \<Rightarrow>
                  Inr \<lparr>side_dec = Some 0, sizeUsd_dec = Some 1000000000,
                       collateral_dec = Some 100000000, entryPrice_dec = Some 142500000,
                       leverage_dec = lv\<rparr>), demo_client1, w'')"
    using dec by (simp add: sd cong: sum.case_cong)
  have 3: "decrypt_one demo_externals demo_secret (side_enc e) (nonce_enc e) = Inr (Some 0)"
    using d1 by (simp add: sd)
  have 4: "decrypt_one demo_externals demo_secret (collateral_enc e) (nonce_enc e) = Inr (Some 100000000)"
    using d3 by simp
  show ?thesis
    by (intro exI [of _ e] conjI) (rule 1, rule 3, rule 4, rule 2)
qed

section \<open>Round trip, side encoding, scaling and nonces\<close>

text \<open>
  Claim C1. Let the cipher keep its contract on the field of order \<open>p\<close>, let the cluster key
  be available and the key exchange succeed, and let the scaled values of the three amounts
  lie in the field. Then \<open>encryptTradeParams\<close> returns, and decrypting each ciphertext it
  returned, under the shared secret and the nonce it returned, gives the scaled value that
  was encrypted. \<open>decryptPosition\<close>, called later on the same client with these ciphertexts
  and this nonce, returns exactly these values whatever the ledger then answers; its result
  is an error only if decrypting the leverage ciphertext throws.
\<close>

theorem encrypt_decrypt_roundtrip:
  assumes "cipher_roundtrip ext p"
    and "getMXEPublicKey ext led c w = (Inr k, c1, w1)"
    and "x25519_getSharedSecret ext (privateKey c) k = Some s"
    and "float_mul ext (sizeUsd params) (Finite 1000000) = Finite xs"
      "float_mul ext (collateral params) (Finite 1000000) = Finite ys"
      "float_mul ext (entryPrice params) (Finite 1000000) = Finite zs"
    and "1 < p" "0 \<le> \<lfloor>xs\<rfloor>" "\<lfloor>xs\<rfloor> < p" "0 \<le> \<lfloor>ys\<rfloor>" "\<lfloor>ys\<rfloor> < p"
      "0 \<le> \<lfloor>zs\<rfloor>" "\<lfloor>zs\<rfloor> < p"
  shows "\<exists>e w'.
      encryptTradeParams ext led c w params = (Inr e, c1, w')
    \<and> decrypt_one ext s (side_enc e) (nonce_enc e)
        = Inr (Some (if side params = Long then 1 else 0))
    \<and> decrypt_one ext s (sizeUsd_enc e) (nonce_enc e) = Inr (Some \<lfloor>xs\<rfloor>)
    \<and> decrypt_one ext s (collateral_enc e) (nonce_enc e) = Inr (Some \<lfloor>ys\<rfloor>)
    \<and> decrypt_one ext s (entryPrice_enc e) (nonce_enc e) = Inr (Some \<lfloor>zs\<rfloor>)
    \<and> (\<forall>led' w'' lev.
          decryptPosition ext led' c1 w''
            \<lparr>side_data = side_enc e, sizeUsd_data = sizeUsd_enc e,
             collateral_data = collateral_enc e, entryPrice_data = entryPrice_enc e,
             leverage_data = lev\<rparr> (nonce_enc e)
          = ((case decrypt_one ext s lev (nonce_enc e) of
                Inl err \<Rightarrow> Inl err
              | Inr lv \<Rightarrow>
                  Inr \<lparr>side_dec = Some (if side params = Long then 1 else 0),
                       sizeUsd_dec = Some \<lfloor>xs\<rfloor>,
                       collateral_dec = Some \<lfloor>ys\<rfloor>,
                       entryPrice_dec = Some \<lfloor>zs\<rfloor>,
                       leverage_dec = lv\<rparr>), c1, w''))"
proof -
  from encrypt_then_decrypt [OF assms] obtain e where
    e: "encryptTradeParams ext led c w params =
        (Inr e, c1,
         w1\<lparr>random_used := random_used w1 + 16,
            encrypt_log := encrypt_log w1 @
              [(s, [if side params = Long then 1 else 0], nonce_enc e),
               (s, [\<lfloor>xs\<rfloor>], nonce_enc e),
               (s, [\<lfloor>ys\<rfloor>], nonce_enc e),
               (s, [\<lfloor>zs\<rfloor>], nonce_enc e)]\<rparr>)"
    and rest: "decrypt_one ext s (side_enc e) (nonce_enc e)
        = Inr (Some (if side params = Long then 1 else 0))"
      "decrypt_one ext s (sizeUsd_enc e) (nonce_enc e) = Inr (Some \<lfloor>xs\<rfloor>)"
      "decrypt_one ext s (collateral_enc e) (nonce_enc e) = Inr (Some \<lfloor>ys\<rfloor>)"
      "decrypt_one ext s (entryPrice_enc e) (nonce_enc e) = Inr (Some \<lfloor>zs\<rfloor>)"
      "\<forall>led' w'' lev.
          decryptPosition ext led' c1 w'' (sent_back e lev) (nonce_enc e)
          = ((case decrypt_one ext s lev (nonce_enc e) of
                Inl err \<Rightarrow> Inl err
              | Inr lv \<Rightarrow>
                  Inr \<lparr>side_dec = Some (if side params = Long then 1 else 0),
                       sizeUsd_dec = Some \<lfloor>xs\<rfloor>,
                       collateral_dec = Some \<lfloor>ys\<rfloor>,
                       entryPrice_dec = Some \<lfloor>zs\<rfloor>,
                       leverage_dec = lv\<rparr>), c1, w'')"
    by blast
  show ?thesis
    by (intro exI conjI) (rule e, (rule rest)+)
qed

text \<open>
  The run of the reference client: the trade is encrypted, then decrypted while the ledger
  is down, with the collateral ciphertext also standing in for the leverage.
\<close>

theorem encrypt_decrypt_roundtrip_witness:
  "(case demo_run of
      (Inr e, c', w') \<Rightarrow>
        fst (decryptPosition demo_externals down_ledger c' w'
              (sent_back e (collateral_enc e)) (nonce_enc e))
        = Inr \<lparr>side_dec = Some 1, sizeUsd_dec = Some 1000000000,
               collateral_dec = Some 100000000, entryPrice_dec = Some 142500000,
               leverage_dec = Some 100000000\<rparr>
    | (Inl err, c', w') \<Rightarrow> False)"
proof -
  from encrypt_decrypt_roundtrip
    [OF demo_cipher_roundtrip demo_key_fetch demo_key_exchange demo_products(1-3) demo_ranges]
  obtain e w' where run: "demo_run = (Inr e, demo_client1, w')"
    and lev: "decrypt_one demo_externals demo_secret (collateral_enc e) (nonce_enc e)
        = Inr (Some \<lfloor>100000000 :: real\<rfloor>)"
    and dec: "\<And>led' w'' lev.
          decryptPosition demo_externals led' demo_client1 w'' (sent_back e lev) (nonce_enc e)
          = ((case decrypt_one demo_externals demo_secret lev (nonce_enc e) of
                Inl err \<Rightarrow> Inl err
              | Inr lv \<Rightarrow>
                  Inr \<lparr>side_dec = Some (if side demo_params = Long then 1 else 0),
                       sizeUsd_dec = Some \<lfloor>1000000000 :: real\<rfloor>,
                       collateral_dec = Some \<lfloor>100000000 :: real\<rfloor>,
                       entryPrice_dec = Some \<lfloor>142500000 :: real\<rfloor>,
                       leverage_dec = lv\<rparr>), demo_client1, w'')"
    unfolding demo_run_def by blast
  have "fst (decryptPosition demo_externals down_ledger demo_client1 w'
              (sent_back e (collateral_enc e)) (nonce_enc e))
        = Inr \<lparr>side_dec = Some 1, sizeUsd_dec = Some 1000000000,
               collateral_dec = Some 100000000, entryPrice_dec = Some 142500000,
               leverage_dec = Some 100000000\<rparr>"
    by (simp add: dec lev demo_params_def)
  then show ?thesis by (simp add: run)
qed

text \<open>
  Claim C10. In every call of \<open>encryptTradeParams\<close> that returns, the first plaintext handed
  to the cipher is 1 for a long and 0 for a short position; under the contract of the
  cipher the returned side ciphertext decrypts to that number, and every later
  \<open>decryptPosition\<close> on the same client that is given this ciphertext and nonce and returns
  a position returns that number as its side.
\<close>

theorem side_encoding:
  assumes "cipher_roundtrip ext p" "1 < p"
    and "encryptTradeParams ext led c w params = (Inr e, c', w')"
  shows "\<exists>s. encrypt_log w' ! length (encrypt_log w)
             = (s, [if side params = Long then 1 else 0], nonce_enc e)
      \<and> decrypt_one ext s (side_enc e) (nonce_enc e)
           = Inr (Some (if side params = Long then 1 else 0))
      \<and> (\<forall>led' w'' d r.
            side_data d = side_enc e
            \<and> fst (decryptPosition ext led' c' w'' d (nonce_enc e)) = Inr r
            \<longrightarrow> side_dec r = Some (if side params = Long then 1 else 0))"
proof -
  let ?v = "if side params = Long then 1 else 0 :: int"
  from encryptTradeParams_Inr [OF assms(3)] obtain k w1 s cs1 cs2 cs3 cs4 and xs ys zs :: real where
    key: "getMXEPublicKey ext led c w = (Inr k, c', w1)"
    and sec: "x25519_getSharedSecret ext (privateKey c') k = Some s"
    and n: "nonce_enc e = map (random_tape w1) [random_used w1 ..< random_used w1 + 16]"
    and e1: "rescue_encrypt ext s [?v] (nonce_enc e) = Some cs1"
    and e: "e = \<lparr>side_enc = first_ciphertext cs1, sizeUsd_enc = first_ciphertext cs2,
            collateral_enc = first_ciphertext cs3, entryPrice_enc = first_ciphertext cs4,
            publicKey_enc = publicKey c', nonce_enc = nonce_enc e\<rparr>"
    and w': "w' = w1\<lparr>random_used := random_used w1 + 16,
              encrypt_log := encrypt_log w1 @
                [(s, [?v], nonce_enc e), (s, [\<lfloor>xs\<rfloor>], nonce_enc e),
                 (s, [\<lfloor>ys\<rfloor>], nonce_enc e), (s, [\<lfloor>zs\<rfloor>], nonce_enc e)]\<rparr>"
    by blast
  note k1 = getMXEPublicKey_Inr [OF key]
  have len: "length (nonce_enc e) = 16" by (simp add: n)
  have v: "0 \<le> ?v" "?v < p" using assms(2) by auto
  from roundtrip_one [OF assms(1) len v, of s] e1 obtain ct where
    ct: "cs1 = [ct]" "decrypt_one ext s ct (nonce_enc e) = Inr (Some ?v)" by auto
  have side_ct: "side_enc e = ct"
    by (subst e) (simp add: ct(1) first_ciphertext_def)
  have A: "encrypt_log w' ! length (encrypt_log w) = (s, [?v], nonce_enc e)"
    by (subst w') (simp add: k1(7))
  have B: "decrypt_one ext s (side_enc e) (nonce_enc e) = Inr (Some ?v)"
    using ct(2) side_ct by simp
  have C: "side_dec r = Some ?v"
    if "side_data d = side_enc e \<and> fst (decryptPosition ext led' c' w'' d (nonce_enc e)) = Inr r"
    for led' w'' d r
  proof -
    from that have "decrypt_one ext s (side_data d) (nonce_enc e) = Inr (side_dec r)"
      using decryptPosition_Inr_side [OF k1(1) sec] by blast
    with that B show ?thesis by simp
  qed
  from A B C show ?thesis by blast
qed

text \<open>The long and the short run of the reference client.\<close>

theorem side_encoding_witness:
  "(case demo_run of
      (Inr e, c', w') \<Rightarrow>
        encrypt_log w' ! 0 = (demo_secret, [1], nonce_enc e)
        \<and> decrypt_one demo_externals demo_secret (side_enc e) (nonce_enc e) = Inr (Some 1)
        \<and> (case fst (decryptPosition demo_externals down_ledger c' w'
                       (sent_back e (side_enc e)) (nonce_enc e)) of
              Inr r \<Rightarrow> side_dec r = Some 1
            | Inl err \<Rightarrow> False)
    | (Inl err, c', w') \<Rightarrow> False)
   \<and> (case demo_short_run of
      (Inr e, c', w') \<Rightarrow>
        encrypt_log w' ! 0 = (demo_secret, [0], nonce_enc e)
        \<and> decrypt_one demo_externals demo_secret (side_enc e) (nonce_enc e) = Inr (Some 0)
        \<and> (case fst (decryptPosition demo_externals down_ledger c' w'
                       (sent_back e (side_enc e)) (nonce_enc e)) of
              Inr r \<Rightarrow> side_dec r = Some 0
            | Inl err \<Rightarrow> False)
    | (Inl err, c', w') \<Rightarrow> False)"
proof -
  from demo_run_result obtain e where
    run: "demo_run = (Inr e, demo_client1, demo_world2 1 (nonce_enc e))"
    and d1: "decrypt_one demo_externals demo_secret (side_enc e) (nonce_enc e) = Inr (Some 1)"
    and dec: "\<forall>led' w'' lev.
            decryptPosition demo_externals led' demo_client1 w'' (sent_back e lev) (nonce_enc e)
            = ((case decrypt_one demo_externals demo_secret lev (nonce_enc e) of
                  Inl err \<Rightarrow> Inl err
                | Inr lv \<Rightarrow>
                    Inr \<lparr>side_dec = Some 1, sizeUsd_dec = Some 1000000000,
                         collateral_dec = Some 100000000, entryPrice_dec = Some 142500000,
                         leverage_dec = lv\<rparr>), demo_client1, w'')"
    by blast
  from demo_short_run_result obtain e0 where
    run0: "demo_short_run = (Inr e0, demo_client1, demo_world2 0 (nonce_enc e0))"
    and d0: "decrypt_one demo_externals demo_secret (side_enc e0) (nonce_enc e0) = Inr (Some 0)"
    and dec0: "\<forall>led' w'' lev.
            decryptPosition demo_externals led' demo_client1 w'' (sent_back e0 lev) (nonce_enc e0)
            = ((case decrypt_one demo_externals demo_secret lev (nonce_enc e0) of
                  Inl err \<Rightarrow> Inl err
                | Inr lv \<Rightarrow>
                    Inr \<lparr>side_dec = Some 0, sizeUsd_dec = Some 1000000000,
                         collateral_dec = Some 100000000, entryPrice_dec = Some 142500000,
                         leverage_dec = lv\<rparr>), demo_client1, w'')"
    by blast
  let ?w = "demo_world2 1 (nonce_enc e)"
  let ?v = "demo_world2 0 (nonce_enc e0)"
  have sd: "(if side demo_params = Long then 1 else 0 :: int) = 1"
    "(if side demo_short_params = Long then 1 else 0 :: int) = 0"
    by (simp_all add: demo_params_def demo_short_params_def)
  obtain r where r: "fst (decryptPosition demo_externals down_ledger demo_client1 ?w
      (sent_back e (side_enc e)) (nonce_enc e)) = Inr r"
    by (simp add: dec d1)
  obtain r0 where r0: "fst (decryptPosition demo_externals down_ledger demo_client1 ?v
      (sent_back e0 (side_enc e0)) (nonce_enc e0)) = Inr r0"
    by (simp add: dec0 d0)
  from side_encoding [OF demo_cipher_roundtrip demo_ranges(1) run [unfolded demo_run_def]]
  obtain s where s: "encrypt_log ?w ! length (encrypt_log demo_world1)
             = (s, [if side demo_params = Long then 1 else 0], nonce_enc e)"
      "decrypt_one demo_externals s (side_enc e) (nonce_enc e)
           = Inr (Some (if side demo_params = Long then 1 else 0))"
      "\<forall>led' w'' d r.
            side_data d = side_enc e
            \<and> fst (decryptPosition demo_externals led' demo_client1 w'' d (nonce_enc e)) = Inr r
            \<longrightarrow> side_dec r = Some (if side demo_params = Long then 1 else 0)"
    by blast
  from side_encoding [OF demo_cipher_roundtrip demo_ranges(1) run0 [unfolded demo_short_run_def]]
  obtain s0 where s0: "encrypt_log ?v ! length (encrypt_log demo_world1)
             = (s0, [if side demo_short_params = Long then 1 else 0], nonce_enc e0)"
      "decrypt_one demo_externals s0 (side_enc e0) (nonce_enc e0)
           = Inr (Some (if side demo_short_params = Long then 1 else 0))"
      "\<forall>led' w'' d r.
            side_data d = side_enc e0
            \<and> fst (decryptPosition demo_externals led' demo_client1 w'' d (nonce_enc e0)) = Inr r
            \<longrightarrow> side_dec r = Some (if side demo_short_params = Long then 1 else 0)"
    by blast
  have s_eq: "s = demo_secret" "s0 = demo_secret"
    using s(1) s0(1) by (simp_all add: demo_world1_fields)
  have a: "encrypt_log ?w ! 0 = (demo_secret, [1], nonce_enc e)"
    using s(1) by (simp add: demo_world1_fields)
  have b: "decrypt_one demo_externals demo_secret (side_enc e) (nonce_enc e) = Inr (Some 1)"
    using s(2) by (simp add: s_eq sd)
  have c: "side_dec r = Some 1"
    using s(3) [rule_format, of "sent_back e (side_enc e)" down_ledger ?w r] r
    by (simp add: sd)
  have a0: "encrypt_log ?v ! 0 = (demo_secret, [0], nonce_enc e0)"
    using s0(1) by (simp add: demo_world1_fields)
  have b0: "decrypt_one demo_externals demo_secret (side_enc e0) (nonce_enc e0) = Inr (Some 0)"
    using s0(2) by (simp add: s_eq sd)
  have c0: "side_dec r0 = Some 0"
    using s0(3) [rule_format, of "sent_back e0 (side_enc e0)" down_ledger ?v r0] r0
    by (simp add: sd)
  show ?thesis
    unfolding run run0 using a b c a0 b0 c0 r r0 by simp
qed

text \<open>
  Claim C3. Let the cluster key be available and the key exchange succeed, let the
  multiplication be the product of doubles, let the amounts \<open>x\<close>, \<open>y\<close>, \<open>z\<close> be finite and
  not negative, and let the cipher not throw on the four values in question. When the
  three products with 1000000 are finite, \<open>encryptTradeParams\<close> returns, and the plaintexts
  it hands to the cipher after the side are the floors of the products of \<open>x\<close>, \<open>y\<close>, \<open>z\<close>
  with 1000000, in this order: integers that are not negative. The product is the rounded
  one: it differs from the exact product by at most the \<open>2^53\<close>-th part of it (by \<open>2^-1075\<close>
  for the smallest amounts). When a product overflows, the call ends in a \<open>RangeError\<close>
  and no plaintext is handed to the cipher.
\<close>

theorem plaintexts_are_scaled:
  assumes "getMXEPublicKey ext led c w = (Inr k, c1, w1)"
    and "x25519_getSharedSecret ext (privateKey c1) k = Some s"
    and "float_mul ext = double_mul"
    and "\<forall>v \<in> {if side params = Long then 1 else 0, \<lfloor>round_double (x * 1000000)\<rfloor>,
               \<lfloor>round_double (y * 1000000)\<rfloor>, \<lfloor>round_double (z * 1000000)\<rfloor>}.
           rescue_encrypt ext s [v] (map (random_tape w1) [random_used w1 ..< random_used w1 + 16])
             \<noteq> None"
    and "sizeUsd params = Finite x" "0 \<le> x"
    and "collateral params = Finite y" "0 \<le> y"
    and "entryPrice params = Finite z" "0 \<le> z"
  shows "if x * 1000000 < overflow_threshold \<and> y * 1000000 < overflow_threshold
            \<and> z * 1000000 < overflow_threshold
     then (\<exists>e w'. encryptTradeParams ext led c w params = (Inr e, c1, w')
             \<and> map (\<lambda>(s, pt, n). pt) (drop (length (encrypt_log w)) (encrypt_log w'))
                 = [[if side params = Long then 1 else 0],
                    [\<lfloor>round_double (x * 1000000)\<rfloor>],
                    [\<lfloor>round_double (y * 1000000)\<rfloor>],
                    [\<lfloor>round_double (z * 1000000)\<rfloor>]])
          \<and> float_mul ext (sizeUsd params) (Finite 1000000) = Finite (round_double (x * 1000000))
          \<and> float_mul ext (collateral params) (Finite 1000000) = Finite (round_double (y * 1000000))
          \<and> float_mul ext (entryPrice params) (Finite 1000000) = Finite (round_double (z * 1000000))
          \<and> 0 \<le> \<lfloor>round_double (x * 1000000)\<rfloor>
          \<and> 0 \<le> \<lfloor>round_double (y * 1000000)\<rfloor>
          \<and> 0 \<le> \<lfloor>round_double (z * 1000000)\<rfloor>
          \<and> \<bar>round_double (x * 1000000) - x * 1000000\<bar> \<le> max (x * 1000000 / 2 ^ 53) (1 / 2 ^ 1075)
          \<and> \<bar>round_double (y * 1000000) - y * 1000000\<bar> \<le> max (y * 1000000 / 2 ^ 53) (1 / 2 ^ 1075)
          \<and> \<bar>round_double (z * 1000000) - z * 1000000\<bar> \<le> max (z * 1000000 / 2 ^ 53) (1 / 2 ^ 1075)
     else (\<exists>w'. encryptTradeParams ext led c w params = (Inl RangeError, c1, w')
             \<and> encrypt_log w' = encrypt_log w)"
proof -
  define nonce where "nonce = map (random_tape w1) [random_used w1 ..< random_used w1 + 16]"
  note k1 = getMXEPublicKey_Inr [OF assms(1)]
  have scale: "0 \<le> x * 1000000" "0 \<le> y * 1000000" "0 \<le> z * 1000000"
    using assms(6,8,10) by simp_all
  show ?thesis
  proof (cases "x * 1000000 < overflow_threshold \<and> y * 1000000 < overflow_threshold
            \<and> z * 1000000 < overflow_threshold")
    case True
    have m: "float_mul ext (sizeUsd params) (Finite 1000000) = Finite (round_double (x * 1000000))"
      "float_mul ext (collateral params) (Finite 1000000) = Finite (round_double (y * 1000000))"
      "float_mul ext (entryPrice params) (Finite 1000000) = Finite (round_double (z * 1000000))"
      using True assms(6,8,10)
      by (simp_all only: assms(3,5,7,9) double_mul_scaled)
    from assms(4) obtain cs1 cs2 cs3 cs4 where
      e: "rescue_encrypt ext s [if side params = Long then 1 else 0] nonce = Some cs1"
        "rescue_encrypt ext s [\<lfloor>round_double (x * 1000000)\<rfloor>] nonce = Some cs2"
        "rescue_encrypt ext s [\<lfloor>round_double (y * 1000000)\<rfloor>] nonce = Some cs3"
        "rescue_encrypt ext s [\<lfloor>round_double (z * 1000000)\<rfloor>] nonce = Some cs4"
      unfolding nonce_def by (simp only: ball_simps insert_iff) (meson not_Some_eq)
    note run = encryptTradeParams_succeeds [OF assms(1,2) nonce_def m e]
    have A: "\<exists>e w'. encryptTradeParams ext led c w params = (Inr e, c1, w')
             \<and> map (\<lambda>(s, pt, n). pt) (drop (length (encrypt_log w)) (encrypt_log w'))
                 = [[if side params = Long then 1 else 0],
                    [\<lfloor>round_double (x * 1000000)\<rfloor>],
                    [\<lfloor>round_double (y * 1000000)\<rfloor>],
                    [\<lfloor>round_double (z * 1000000)\<rfloor>]]"
      by (intro exI conjI, rule run) (simp add: k1(7))
    have B: "0 \<le> \<lfloor>round_double (x * 1000000)\<rfloor>" "0 \<le> \<lfloor>round_double (y * 1000000)\<rfloor>"
      "0 \<le> \<lfloor>round_double (z * 1000000)\<rfloor>"
      using scale by (simp_all add: round_double_nonneg)
    have C: "\<bar>round_double (x * 1000000) - x * 1000000\<bar> \<le> max (x * 1000000 / 2 ^ 53) (1 / 2 ^ 1075)"
      "\<bar>round_double (y * 1000000) - y * 1000000\<bar> \<le> max (y * 1000000 / 2 ^ 53) (1 / 2 ^ 1075)"
      "\<bar>round_double (z * 1000000) - z * 1000000\<bar> \<le> max (z * 1000000 / 2 ^ 53) (1 / 2 ^ 1075)"
      using True scale by (blast intro: round_double_close)+
    from True A m B C show ?thesis by (simp only: if_True simp_thms)
  next
    case False
    have ox: "float_mul ext (sizeUsd params) (Finite 1000000) = PosInfinity"
      if "\<not> x * 1000000 < overflow_threshold"
      unfolding assms(3,5) by (rule double_mul_overflow [OF assms(6) that])
    have oy: "float_mul ext (collateral params) (Finite 1000000) = PosInfinity"
      if "\<not> y * 1000000 < overflow_threshold"
      unfolding assms(3,7) by (rule double_mul_overflow [OF assms(8) that])
    have oz: "float_mul ext (entryPrice params) (Finite 1000000) = PosInfinity"
      if "\<not> z * 1000000 < overflow_threshold"
      unfolding assms(3,9) by (rule double_mul_overflow [OF assms(10) that])
    from False have "float_mul ext (sizeUsd params) (Finite 1000000) = PosInfinity
        \<or> float_mul ext (collateral params) (Finite 1000000) = PosInfinity
        \<or> float_mul ext (entryPrice params) (Finite 1000000) = PosInfinity"
      using ox oy oz by blast
    then have "(\<forall>xs. float_mul ext (sizeUsd params) (Finite 1000000) \<noteq> Finite xs)
          \<or> (\<forall>ys. float_mul ext (collateral params) (Finite 1000000) \<noteq> Finite ys)
          \<or> (\<forall>zs. float_mul ext (entryPrice params) (Finite 1000000) \<noteq> Finite zs)"
      by auto
    from encryptTradeParams_RangeError [OF assms(1,2) this]
    have "\<exists>w'. encryptTradeParams ext led c w params = (Inl RangeError, c1, w')
             \<and> encrypt_log w' = encrypt_log w"
      by (simp add: k1(7))
    with False show ?thesis by (simp only: if_False)
  qed
qed

text \<open>
  The reference client encrypts the trade with the fractional amounts. The exact product
  of the size with 1000000 lies below 300000 and the product of doubles is 300000; the
  other two products are exact and are no integers. The trade with the collateral \<open>2^1010\<close>
  ends in a \<open>RangeError\<close>.
\<close>

theorem plaintexts_are_scaled_witness:
  "(case encryptTradeParams demo_externals demo_ledger demo_client demo_world1
           demo_fraction_params of
      (Inr e, c', w') \<Rightarrow>
        map (\<lambda>(s, pt, n). pt) (encrypt_log w') = [[0], [300000], [0], [1999999]]
    | (Inl err, c', w') \<Rightarrow> False)
   \<and> fst (encryptTradeParams demo_externals demo_ledger demo_client demo_world1
            demo_huge_params) = Inl RangeError
   \<and> (5404319552844595 / 18014398509481984 :: real) * 1000000 < 300000"
proof -
  have sec: "x25519_getSharedSecret demo_externals (privateKey demo_client1) demo_key
      = Some demo_secret"
    using demo_key_exchange by (simp add: demo_client1_def)
  have mul: "float_mul demo_externals = double_mul" by (simp add: demo_externals_def)
  have total: "\<forall>v \<in> V.
      rescue_encrypt demo_externals demo_secret [v] (map (random_tape w) [random_used w ..< random_used w + 16])
        \<noteq> None" for V w
    by (simp add: demo_externals_def demo_encrypt_def)
  have p: "sizeUsd demo_fraction_params = Finite (5404319552844595 / 18014398509481984)"
    "(0::real) \<le> 5404319552844595 / 18014398509481984"
    "collateral demo_fraction_params = Finite (1 / 2097152)" "(0::real) \<le> 1 / 2097152"
    "entryPrice demo_fraction_params = Finite (2 - 1 / 1048576)" "(0::real) \<le> 2 - 1 / 1048576"
    by (simp_all add: demo_fraction_params_def)
  have q: "sizeUsd demo_huge_params = Finite 1000" "(0::real) \<le> 1000"
    "collateral demo_huge_params = Finite (2 ^ 1010)" "(0::real) \<le> 2 ^ 1010"
    "entryPrice demo_huge_params = Finite 142.5" "(0::real) \<le> 142.5"
    by (simp_all add: demo_huge_params_def)
  have small: "(5404319552844595 / 18014398509481984 :: real) * 1000000 < overflow_threshold
      \<and> (1 / 2097152 :: real) * 1000000 < overflow_threshold
      \<and> (2 - 1 / 1048576 :: real) * 1000000 < overflow_threshold"
    by (simp add: overflow_threshold_def)
  have huge: "\<not> ((1000 :: real) * 1000000 < overflow_threshold
      \<and> (2 ^ 1010 :: real) * 1000000 < overflow_threshold
      \<and> (142.5 :: real) * 1000000 < overflow_threshold)"
    by (simp add: overflow_threshold_def)
  have r: "\<lfloor>round_double ((5404319552844595 / 18014398509481984) * 1000000)\<rfloor> = 300000"
    "\<lfloor>round_double ((1 / 2097152) * 1000000)\<rfloor> = 0"
    "\<lfloor>round_double ((2 - 1 / 1048576) * 1000000)\<rfloor> = 1999999"
    by (simp_all add: double_mul_eval)
  note t = plaintexts_are_scaled [OF demo_key_fetch sec mul total p, unfolded if_P [OF small]]
  from t have "\<exists>e w'. encryptTradeParams demo_externals demo_ledger demo_client demo_world1
            demo_fraction_params = (Inr e, demo_client1, w')
      \<and> map (\<lambda>(s, pt, n). pt) (drop (length (encrypt_log demo_world1)) (encrypt_log w'))
         = [[if side demo_fraction_params = Long then 1 else 0],
            [\<lfloor>round_double ((5404319552844595 / 18014398509481984) * 1000000)\<rfloor>],
            [\<lfloor>round_double ((1 / 2097152) * 1000000)\<rfloor>],
            [\<lfloor>round_double ((2 - 1 / 1048576) * 1000000)\<rfloor>]]"
    by (rule conjunct1)
  then obtain e w' where
    run: "encryptTradeParams demo_externals demo_ledger demo_client demo_world1
            demo_fraction_params = (Inr e, demo_client1, w')"
    and l: "map (\<lambda>(s, pt, n). pt) (drop (length (encrypt_log demo_world1)) (encrypt_log w'))
         = [[if side demo_fraction_params = Long then 1 else 0],
            [\<lfloor>round_double ((5404319552844595 / 18014398509481984) * 1000000)\<rfloor>],
            [\<lfloor>round_double ((1 / 2097152) * 1000000)\<rfloor>],
            [\<lfloor>round_double ((2 - 1 / 1048576) * 1000000)\<rfloor>]]"
    by (elim exE conjE) (rule that)
  have 1: "map (\<lambda>(s, pt, n). pt) (encrypt_log w') = [[0], [300000], [0], [1999999]]"
    using l by (simp only: r demo_world1_fields) (simp add: demo_fraction_params_def)
  from plaintexts_are_scaled [OF demo_key_fetch sec mul total q, unfolded if_not_P [OF huge]]
  have 2: "fst (encryptTradeParams demo_externals demo_ledger demo_client demo_world1
            demo_huge_params) = Inl RangeError"
    by auto
  have 3: "(5404319552844595 / 18014398509481984 :: real) * 1000000 < 300000" by simp
  from 1 2 3 show ?thesis by (simp add: run)
qed

text \<open>
  Claim C2, as amended. Every call of \<open>encryptTradeParams\<close> that returns has drawn exactly
  one nonce, the next 16 bytes of the random source, and has used this nonce with one and
  the same secret in all four invocations of the cipher; it returns this nonce.
\<close>

theorem one_nonce_per_call:
  assumes "encryptTradeParams ext led c w params = (Inr e, c', w')"
  shows "nonce_enc e = map (random_tape w) [random_used w ..< random_used w + 16]
     \<and> length (nonce_enc e) = 16
     \<and> random_used w' = random_used w + 16
     \<and> random_tape w' = random_tape w
     \<and> (\<exists>s. map (\<lambda>(s', pt, n). (s', n)) (drop (length (encrypt_log w)) (encrypt_log w'))
              = [(s, nonce_enc e), (s, nonce_enc e), (s, nonce_enc e), (s, nonce_enc e)])"
proof -
  from encryptTradeParams_Inr [OF assms(1)] obtain k w1 s and xs ys zs :: real where
    key: "getMXEPublicKey ext led c w = (Inr k, c', w1)"
    and n: "nonce_enc e = map (random_tape w1) [random_used w1 ..< random_used w1 + 16]"
    and w': "w' = w1\<lparr>random_used := random_used w1 + 16,
              encrypt_log := encrypt_log w1 @
                [(s, [if side params = Long then 1 else 0], nonce_enc e),
                 (s, [\<lfloor>xs\<rfloor>], nonce_enc e), (s, [\<lfloor>ys\<rfloor>], nonce_enc e),
                 (s, [\<lfloor>zs\<rfloor>], nonce_enc e)]\<rparr>"
    by blast
  note k1 = getMXEPublicKey_Inr [OF key]
  have A: "nonce_enc e = map (random_tape w) [random_used w ..< random_used w + 16]"
    using n by (simp add: k1)
  have B: "length (nonce_enc e) = 16" by (simp add: n)
  have C: "random_used w' = random_used w + 16" "random_tape w' = random_tape w"
    by (subst w', simp add: k1)+
  have D: "map (\<lambda>(s', pt, n). (s', n)) (drop (length (encrypt_log w)) (encrypt_log w'))
              = [(s, nonce_enc e), (s, nonce_enc e), (s, nonce_enc e), (s, nonce_enc e)]"
    by (subst w') (simp add: k1(7))
  show ?thesis
    by (intro conjI exI [of _ s]) (rule A B C D)+
qed

text \<open>The reference run draws bytes 32 to 47 of the tape and uses them four times.\<close>

theorem one_nonce_per_call_witness:
  "(case demo_run of
      (Inr e, c', w') \<Rightarrow>
        nonce_enc e = map (random_tape demo_world) [32 ..< 48]
        \<and> random_used w' = 48
        \<and> map (\<lambda>(s, pt, n). (s, n)) (encrypt_log w')
            = [(demo_secret, nonce_enc e), (demo_secret, nonce_enc e),
               (demo_secret, nonce_enc e), (demo_secret, nonce_enc e)]
    | (Inl err, c', w') \<Rightarrow> False)"
proof -
  from demo_run_result obtain e where
    run: "demo_run = (Inr e, demo_client1, demo_world2 1 (nonce_enc e))"
    by blast
  from one_nonce_per_call [OF run [unfolded demo_run_def]]
  have n: "nonce_enc e = map (random_tape demo_world1) [random_used demo_world1 ..< random_used demo_world1 + 16]"
    by blast
  have "nonce_enc e = map (random_tape demo_world) [32 ..< 48]"
    using n by (simp only: demo_world1_fields) simp
  then show ?thesis unfolding run by simp
qed

text \<open>
  Claim C2 as stated fails: in the reference run the side (plaintext 1) and the size
  (plaintext 1000000000) are encrypted under the same secret and the same nonce.
\<close>

theorem nonce_reused_counterexample:
  "\<not> nonce_never_reused (encrypt_log (snd (snd demo_run)))"
proof -
  from demo_run_result obtain e where
    run: "demo_run = (Inr e, demo_client1, demo_world2 1 (nonce_enc e))"
    by blast
  show ?thesis
    unfolding run by (simp add: nonce_never_reused_def)
qed

section \<open>The key cache, computation offsets and the configuration fallback\<close>

lemma encryptTradeParams_cached:
  assumes "mxePublicKey c = Some k"
  shows "fst (snd (encryptTradeParams ext led c w params)) = c"
    and "fetch_log (snd (snd (encryptTradeParams ext led c w params))) = fetch_log w"
  using assms
  by (auto simp: encryptTradeParams_def getMXEPublicKey_cached encrypt_one_def randomBytes_def
        Let_def split: option.splits sum.splits)

lemma decryptPosition_cached_state:
  assumes "mxePublicKey c = Some k"
  shows "snd (decryptPosition ext led c w d n) = (c, w)"
  using assms
  by (auto simp: decryptPosition_def getMXEPublicKey_cached split: option.splits sum.splits)

lemma getMXEPublicKey_fetches:
  "length (fetch_log (snd (snd (getMXEPublicKey ext led c w)))) \<le> length (fetch_log w) + 1"
  by (auto simp: getMXEPublicKey_def Let_def split: option.splits rpc_reply.splits)

text \<open>
  Claim C5. After a call of \<open>getMXEPublicKey\<close> that returned a key, the client holds this key;
  the call asked the ledger at most once; and whatever the ledger answers later, every
  further \<open>getMXEPublicKey\<close> returns the same key and leaves client and world as they are,
  so it asks the ledger nothing. \<open>encryptTradeParams\<close> and \<open>decryptPosition\<close> neither change the
  client nor ask the ledger from then on. No operation of the client clears the key.
\<close>

theorem cluster_key_is_cached:
  assumes "getMXEPublicKey ext led c w = (Inr k, c', w')"
  shows "mxePublicKey c' = Some k
     \<and> length (fetch_log w') \<le> length (fetch_log w) + 1
     \<and> (\<forall>led2 w2. getMXEPublicKey ext led2 c' w2 = (Inr k, c', w2))
     \<and> (\<forall>led2 w2 params.
           fst (snd (encryptTradeParams ext led2 c' w2 params)) = c'
           \<and> fetch_log (snd (snd (encryptTradeParams ext led2 c' w2 params))) = fetch_log w2)
     \<and> (\<forall>led2 w2 d n. snd (decryptPosition ext led2 c' w2 d n) = (c', w2))"
proof -
  note k1 = getMXEPublicKey_Inr [OF assms]
  have "length (fetch_log w') \<le> length (fetch_log w) + 1"
    using getMXEPublicKey_fetches [of ext led c w] assms by simp
  then show ?thesis
    using k1(1)
    by (simp add: getMXEPublicKey_cached encryptTradeParams_cached decryptPosition_cached_state)
qed

text \<open>The reference client fetches the key once and answers from the cache when the ledger is down.\<close>

theorem cluster_key_is_cached_witness:
  "getMXEPublicKey demo_externals demo_ledger demo_client demo_world1
     = (Inr demo_key, demo_client1, demo_world1\<lparr>fetch_log := fetch_log demo_world1 @ [[4, 3, 2, 1]]\<rparr>)
   \<and> getMXEPublicKey demo_externals down_ledger demo_client1 demo_world1
     = (Inr demo_key, demo_client1, demo_world1)
   \<and> getMXEPublicKey demo_externals absent_ledger demo_client1 demo_world
     = (Inr demo_key, demo_client1, demo_world)
   \<and> mxePublicKey demo_client1 = Some demo_key
   \<and> snd (decryptPosition demo_externals absent_ledger demo_client1 demo_world1
            \<lparr>side_data = [], sizeUsd_data = [], collateral_data = [], entryPrice_data = [],
             leverage_data = []\<rparr> []) = (demo_client1, demo_world1)"
  using cluster_key_is_cached [OF demo_key_fetch] demo_key_fetch by simp

lemma BN_of_bytes_snoc: "BN_of_bytes (bs @ [b]) = BN_of_bytes bs * 256 + unat b"
  by (simp add: BN_of_bytes_def)

lemma byte_bound: "unat (b :: byte) < 256"
  using unsigned_less [of b, where ?'a = nat] by simp

lemma BN_of_bytes_bound: "BN_of_bytes bs < 256 ^ length bs"
proof (induction bs rule: rev_induct)
  case Nil
  show ?case by (simp add: BN_of_bytes_def)
next
  case (snoc b bs)
  have "BN_of_bytes bs * 256 + unat b < (BN_of_bytes bs + 1) * 256"
    using byte_bound [of b] by simp
  also have "\<dots> \<le> 256 ^ length bs * 256"
    using snoc.IH by (intro mult_le_mono1) simp
  finally show ?case by (simp add: BN_of_bytes_snoc)
qed

lemma BN_of_bytes_inj:
  "length xs = length ys \<Longrightarrow> BN_of_bytes xs = BN_of_bytes ys \<Longrightarrow> xs = ys"
proof (induction xs arbitrary: ys rule: rev_induct)
  case Nil
  then show ?case by simp
next
  case (snoc x xs)
  from snoc.prems(1) obtain y ys' where ys: "ys = ys' @ [y]"
    by (cases ys rule: rev_cases) auto
  with snoc.prems have len: "length xs = length ys'"
    and eq: "BN_of_bytes xs * 256 + unat x = BN_of_bytes ys' * 256 + unat y"
    by (simp_all add: BN_of_bytes_snoc)
  have "(BN_of_bytes xs * 256 + unat x) div 256 = (BN_of_bytes ys' * 256 + unat y) div 256"
    "(BN_of_bytes xs * 256 + unat x) mod 256 = (BN_of_bytes ys' * 256 + unat y) mod 256"
    using eq by simp_all
  then have "BN_of_bytes xs = BN_of_bytes ys'" "unat x = unat y"
    using byte_bound [of x] byte_bound [of y] by simp_all
  then show ?case using snoc.IH [OF len] ys by (simp add: word_unat_eq_iff)
qed

text \<open>What a submission that returned has done.\<close>

lemma generateComputationOffset_world:
  "random_used (snd (generateComputationOffset w)) = random_used w + 8"
  "random_tape (snd (generateComputationOffset w)) = random_tape w"
  "encrypt_log (snd (generateComputationOffset w)) = encrypt_log w"
  "fetch_log (snd (generateComputationOffset w)) = fetch_log w"
  by (simp_all add: generateComputationOffset_def randomBytes_def)

lemma awaitComputation_Inr:
  "awaitComputation finalization c off = Inr sg \<Longrightarrow> finalization (programId c) off = Some sg"
  by (simp add: awaitComputation_def split: option.splits)

lemma openPosition_mutation_Inr:
  assumes "openPosition_mutation ext led finalization now ready (Some c) w params
             = (Inr r, c', w')"
  shows "computationOffset r = fst (generateComputationOffset w)"
    and "finalization (programId c) (computationOffset r) = Some (finalizeSignature r)"
    and "random_tape w' = random_tape w"
    and "random_used w' = random_used w + 24"
proof -
  let ?w1 = "snd (generateComputationOffset w)"
  let ?off = "fst (generateComputationOffset w)"
  from assms obtain enc c1 sg where
    run: "encryptTradeParams ext led c ?w1 params = (Inr enc, c1, w')"
    and aw: "awaitComputation finalization c1 ?off = Inr sg"
    and r: "r = \<lparr>queueSignature = ''pending-deployment-'' @ now, finalizeSignature = sg,
                 computationOffset = ?off\<rparr>"
    by (auto simp: openPosition_mutation_def split: if_splits prod.splits sum.splits)
  from encryptTradeParams_Inr [OF run] obtain k w1 s and xs ys zs :: real where
    key: "getMXEPublicKey ext led c ?w1 = (Inr k, c1, w1)"
    and w': "w' = w1\<lparr>random_used := random_used w1 + 16,
              encrypt_log := encrypt_log w1 @
                [(s, [if side params = Long then 1 else 0], nonce_enc enc),
                 (s, [\<lfloor>xs\<rfloor>], nonce_enc enc), (s, [\<lfloor>ys\<rfloor>], nonce_enc enc),
                 (s, [\<lfloor>zs\<rfloor>], nonce_enc enc)]\<rparr>"
    by blast
  note k1 = getMXEPublicKey_Inr [OF key]
  show "computationOffset r = ?off" by (simp add: r)
  show "finalization (programId c) (computationOffset r) = Some (finalizeSignature r)"
    using awaitComputation_Inr [OF aw] by (simp add: r k1(4))
  show "random_tape w' = random_tape w"
    by (subst w') (simp add: k1 generateComputationOffset_world)
  show "random_used w' = random_used w + 24"
    by (subst w') (simp add: k1 generateComputationOffset_world)
qed

lemma closePosition_mutation_Inr:
  assumes "closePosition_mutation finalization now ready (Some c) w = (Inr r, c', w')"
  shows "finalization (programId c) (fst (generateComputationOffset w))
           = Some (close_finalizeSignature r)"
    and "w' = snd (generateComputationOffset w)"
  using assms
  by (auto simp: closePosition_mutation_def awaitComputation_def
        split: if_splits prod.splits sum.splits option.splits)

text \<open>The reference client, with the cluster key cached, opens the demonstration trade in any world.\<close>

lemma demo_open_submission:
  "\<exists>r w'. openPosition_mutation demo_externals led demo_finalization now True
             (Some demo_client1) w demo_params = (Inr r, Some demo_client1, w')
        \<and> computationOffset r = fst (generateComputationOffset w)"
proof -
  let ?w1 = "snd (generateComputationOffset w)"
  have cached: "mxePublicKey demo_client1 = Some demo_key" by (simp add: demo_client1_def)
  have key: "getMXEPublicKey demo_externals led demo_client1 ?w1 = (Inr demo_key, demo_client1, ?w1)"
    by (rule getMXEPublicKey_cached [OF cached])
  have sec: "x25519_getSharedSecret demo_externals (privateKey demo_client1) demo_key
      = Some demo_secret"
    using demo_key_exchange by (simp add: demo_client1_def)
  from encrypt_then_decrypt [OF demo_cipher_roundtrip key sec demo_products(1-3) demo_ranges]
  obtain e w2 where
    run: "encryptTradeParams demo_externals led demo_client1 ?w1 demo_params
            = (Inr e, demo_client1, w2)"
    by blast
  have aw: "awaitComputation demo_finalization demo_client1 off = Inr ''finalized''" for off
    by (simp add: awaitComputation_def demo_finalization_def demo_client1_def demo_client_fields)
  show ?thesis
    by (simp add: openPosition_mutation_def split_beta run aw)
qed

text \<open>
  Claim C9 as stated fails: when the random source returns the same bytes again, here the
  byte 0 for ever, two submissions that the same client makes one after the other get the
  same offset.
\<close>

theorem offset_reused_counterexample:
  "(case openPosition_mutation demo_externals demo_ledger demo_finalization ''1''
           True (Some demo_client1) stuck_world demo_params of
      (Inr r1, c1, w1) \<Rightarrow>
        (case openPosition_mutation demo_externals demo_ledger demo_finalization ''2''
                True c1 w1 demo_params of
           (Inr r2, c2, w2) \<Rightarrow> computationOffset r1 = computationOffset r2
         | (Inl err, c2, w2) \<Rightarrow> False)
    | (Inl err, c1, w1) \<Rightarrow> False)"
proof -
  from demo_open_submission [of demo_ledger "''1''" stuck_world] obtain r1 w1 where
    run1: "openPosition_mutation demo_externals demo_ledger demo_finalization ''1'' True
             (Some demo_client1) stuck_world demo_params = (Inr r1, Some demo_client1, w1)"
    and o1: "computationOffset r1 = fst (generateComputationOffset stuck_world)"
    by blast
  from demo_open_submission [of demo_ledger "''2''" w1] obtain r2 w2 where
    run2: "openPosition_mutation demo_externals demo_ledger demo_finalization ''2'' True
             (Some demo_client1) w1 demo_params = (Inr r2, Some demo_client1, w2)"
    and o2: "computationOffset r2 = fst (generateComputationOffset w1)"
    by blast
  note s1 = openPosition_mutation_Inr [OF run1]
  have tape: "random_tape w1 = (\<lambda>i. 0)" using s1(3) by (simp add: stuck_world_def)
  have "computationOffset r1 = computationOffset r2"
    by (simp add: o1 o2 generateComputationOffset_def randomBytes_def tape stuck_world_def
          map_replicate_const)
  then show ?thesis by (simp add: run1 run2)
qed

text \<open>
  Claim C9, as amended. The offset is below \<open>2^64\<close>; it is the big-endian value of the next
  8 bytes of the random source, and the call moves the source on by exactly these 8 bytes,
  so every call draws bytes of its own. Two calls give the same offset exactly when the
  bytes they drew are the same. Every submission generates its offset by one such call
  before anything else: the opening of a position that returns has waited for the
  computation under that offset, returns that offset, and has moved the source on by its 8
  bytes and the 16 bytes of the nonce; the closing of a position that returns has waited
  for the computation under that offset and has moved the source on by its 8 bytes.
\<close>

theorem computation_offsets_of_submissions:
  "fst (generateComputationOffset w) < 2 ^ 64
   \<and> fst (generateComputationOffset w)
       = BN_of_bytes (map (random_tape w) [random_used w ..< random_used w + 8])
   \<and> random_used (snd (generateComputationOffset w)) = random_used w + 8
   \<and> random_tape (snd (generateComputationOffset w)) = random_tape w
   \<and> (fst (generateComputationOffset w) = fst (generateComputationOffset w2)
        \<longleftrightarrow> map (random_tape w) [random_used w ..< random_used w + 8]
            = map (random_tape w2) [random_used w2 ..< random_used w2 + 8])
   \<and> (\<forall>r c' w'.
         openPosition_mutation ext led finalization now ready (Some c) w params
           = (Inr r, c', w')
         \<longrightarrow> computationOffset r = fst (generateComputationOffset w)
             \<and> finalization (programId c) (computationOffset r) = Some (finalizeSignature r)
             \<and> random_tape w' = random_tape w
             \<and> random_used w' = random_used w + 24)
   \<and> (\<forall>r c' w'.
         closePosition_mutation finalization now ready (Some c) w = (Inr r, c', w')
         \<longrightarrow> finalization (programId c) (fst (generateComputationOffset w))
               = Some (close_finalizeSignature r)
             \<and> w' = snd (generateComputationOffset w))"
proof -
  let ?bs = "map (random_tape w) [random_used w ..< random_used w + 8]"
  let ?cs = "map (random_tape w2) [random_used w2 ..< random_used w2 + 8]"
  have v: "fst (generateComputationOffset w) = BN_of_bytes ?bs"
    "fst (generateComputationOffset w2) = BN_of_bytes ?cs"
    by (simp_all add: generateComputationOffset_def randomBytes_def)
  have "BN_of_bytes ?bs < 256 ^ length ?bs" by (rule BN_of_bytes_bound)
  also have "(256::nat) ^ length ?bs = 2 ^ 64" by simp
  finally have A: "fst (generateComputationOffset w) < 2 ^ 64" by (simp only: v)
  have "BN_of_bytes ?bs = BN_of_bytes ?cs \<longleftrightarrow> ?bs = ?cs"
    using BN_of_bytes_inj [of ?bs ?cs] by auto
  then have B: "fst (generateComputationOffset w) = fst (generateComputationOffset w2)
        \<longleftrightarrow> ?bs = ?cs"
    by (simp only: v)
  have C: "\<forall>r c' w'.
         openPosition_mutation ext led finalization now ready (Some c) w params
           = (Inr r, c', w')
         \<longrightarrow> computationOffset r = fst (generateComputationOffset w)
             \<and> finalization (programId c) (computationOffset r) = Some (finalizeSignature r)
             \<and> random_tape w' = random_tape w
             \<and> random_used w' = random_used w + 24"
    by (intro allI impI conjI) (erule openPosition_mutation_Inr)+
  have D: "\<forall>r c' w'.
         closePosition_mutation finalization now ready (Some c) w = (Inr r, c', w')
         \<longrightarrow> finalization (programId c) (fst (generateComputationOffset w))
               = Some (close_finalizeSignature r)
             \<and> w' = snd (generateComputationOffset w)"
    by (intro allI impI conjI) (erule closePosition_mutation_Inr)+
  show ?thesis
    by (intro conjI) (rule A, rule v(1), rule generateComputationOffset_world(1),
      rule generateComputationOffset_world(2), rule B, rule C, rule D)
qed

text \<open>
  The reference client opens the demonstration trade and then closes it. The opening draws
  bytes 32 to 39 of the tape for its offset, the closing bytes 56 to 63, and the two
  offsets differ.
\<close>

theorem computation_offsets_of_submissions_witness:
  "(case openPosition_mutation demo_externals demo_ledger demo_finalization ''1''
           True (Some demo_client1) demo_world1 demo_params of
      (Inr r, c', w') \<Rightarrow>
        computationOffset r = BN_of_bytes [97, 100, 103, 106, 109, 112, 115, 118]
        \<and> finalizeSignature r = ''finalized''
        \<and> random_used w' = 56
        \<and> (case closePosition_mutation demo_finalization ''2'' True c' w' of
              (Inr r', c'', w'') \<Rightarrow>
                close_finalizeSignature r' = ''finalized''
                \<and> random_used w'' = 64
                \<and> fst (generateComputationOffset w')
                    = BN_of_bytes [169, 172, 175, 178, 181, 184, 187, 190]
                \<and> fst (generateComputationOffset w') \<noteq> computationOffset r
            | (Inl err, c'', w'') \<Rightarrow> False)
    | (Inl err, c', w') \<Rightarrow> False)"
proof -
  from demo_open_submission [of demo_ledger "''1''" demo_world1] obtain r w' where
    run: "openPosition_mutation demo_externals demo_ledger demo_finalization ''1'' True
             (Some demo_client1) demo_world1 demo_params = (Inr r, Some demo_client1, w')"
    by blast
  have pid: "programId demo_client1 = [1, 2, 3, 4]"
    by (simp add: demo_client1_def demo_client_fields)
  obtain r' where close: "closePosition_mutation demo_finalization ''2'' True
      (Some demo_client1) w' = (Inr r', Some demo_client1, snd (generateComputationOffset w'))"
    by (simp add: closePosition_mutation_def awaitComputation_def demo_finalization_def pid
          split: prod.splits)
  note t = computation_offsets_of_submissions
    [of demo_world1 w' demo_externals demo_ledger demo_finalization "''1''" True demo_client1
        demo_params]
  note u = computation_offsets_of_submissions
    [of w' demo_world1 demo_externals demo_ledger demo_finalization "''2''" True demo_client1
        demo_params]
  from t run have o: "computationOffset r = fst (generateComputationOffset demo_world1)"
    and sg: "demo_finalization (programId demo_client1) (computationOffset r)
               = Some (finalizeSignature r)"
    and tape: "random_tape w' = random_tape demo_world1"
    and used: "random_used w' = random_used demo_world1 + 24"
    by blast+
  from u close have sg': "demo_finalization (programId demo_client1)
        (fst (generateComputationOffset w')) = Some (close_finalizeSignature r')"
    by blast
  have bytes1: "map (random_tape demo_world1) [random_used demo_world1 ..< random_used demo_world1 + 8]
      = [97, 100, 103, 106, 109, 112, 115, 118]"
    by (simp add: demo_world1_fields demo_world_def)
  have bytes2: "map (random_tape w') [random_used w' ..< random_used w' + 8]
      = [169, 172, 175, 178, 181, 184, 187, 190]"
    by (simp add: tape used demo_world1_fields demo_world_def)
  have 1: "computationOffset r = BN_of_bytes [97, 100, 103, 106, 109, 112, 115, 118]"
    using t bytes1 o by simp
  have 2: "fst (generateComputationOffset w') = BN_of_bytes [169, 172, 175, 178, 181, 184, 187, 190]"
    using u bytes2 by simp
  have 3: "fst (generateComputationOffset w') \<noteq> computationOffset r"
    using u bytes1 bytes2 o by simp
  have 4: "finalizeSignature r = ''finalized''" "close_finalizeSignature r' = ''finalized''"
    using sg sg' by (simp_all add: demo_finalization_def pid)
  have 5: "random_used w' = 56" "random_used (snd (generateComputationOffset w')) = 64"
    using used by (simp_all add: generateComputationOffset_world demo_world1_fields)
  from 1 2 3 4 5 show ?thesis by (simp add: run close)
qed

text \<open>
  Claim C8 as stated fails: when \<open>getArciumEnv\<close> throws, the set-up goes on with the fixed
  cluster key and the program's id.
\<close>

theorem fallback_config_counterexample:
  "before_arcium_env None ''Bv3Fb9VjzjWGfX18QTUcVycAfeLoQ5zZN6vv2g3cTZxp''
     = (\<lparr>arciumClusterPubkey = ''2E4qQsaFWEWFbyKRDEaK2bAWQLFnk9MDRv6PCpViArmN'',
         mxeProgramId = ''Bv3Fb9VjzjWGfX18QTUcVycAfeLoQ5zZN6vv2g3cTZxp''\<rparr>,
        [''Failed to load Arcium env via getArciumEnv, using fallback values''])"
  by (simp add: before_arcium_env_def)

text \<open>
  Claim C8, as amended. When \<open>getArciumEnv\<close> throws, the set-up logs one line and continues
  with the fixed cluster key and the program's own id as configuration; when it returns,
  the set-up uses what it returned and logs nothing.
\<close>

theorem fallback_config:
  "fst (before_arcium_env None program_programId)
     = \<lparr>arciumClusterPubkey = ''2E4qQsaFWEWFbyKRDEaK2bAWQLFnk9MDRv6PCpViArmN'',
        mxeProgramId = program_programId\<rparr>
   \<and> snd (before_arcium_env None program_programId)
     = [''Failed to load Arcium env via getArciumEnv, using fallback values'']
   \<and> before_arcium_env (Some env) program_programId = (env, [])"
  by (simp add: before_arcium_env_def)

end
